theory Spec2Isabelle
  imports Main
begin

section \<open>JavaScript values\<close>

text \<open>
  Strings are lists of code units below 256. A property that is absent from an object
  reads as \<open>undefined\<close>; a value is \<open>undefined\<close>, \<open>null\<close>, a string or an array
  of strings (the only shapes the profile code builds or reads).
\<close>

datatype jsval = JUndefined | JNull | JStr string | JArr "string list"

text \<open>
  An object is its list of properties in insertion order. Reading a property takes the
  entry of that key (\<open>map_of\<close>); defining a property that exists replaces its value in
  place, otherwise the property is appended, which is what an object literal and the
  spread syntax do.
\<close>

type_synonym js_object = "(string \<times> jsval) list"

fun set_prop :: "string \<Rightarrow> 'v \<Rightarrow> (string \<times> 'v) list \<Rightarrow> (string \<times> 'v) list" where
  "set_prop k v [] = [(k, v)]"
| "set_prop k v (p # ps) = (if fst p = k then (k, v) # ps else p # set_prop k v ps)"

text \<open>\<open>{...target, ...src}\<close>: the properties of \<open>src\<close> are defined on \<open>target\<close> one by one.\<close>

fun spread :: "(string \<times> 'v) list \<Rightarrow> (string \<times> 'v) list \<Rightarrow> (string \<times> 'v) list" where
  "spread target [] = target"
| "spread target ((k, v) # src) = spread (set_prop k v target) src"

text \<open>An error object, as the client library returns or throws it.\<close>

record js_error =
  err_code :: "string option"
  message :: string

text \<open>\<open>File\<close>: the three properties \<open>uploadResume\<close> reads.\<close>

record js_file =
  file_type :: string
  file_size :: nat
  file_name :: string

subsection \<open>String operations\<close>

text \<open>\<open>String.prototype.split\<close> with a one-character separator.\<close>

fun split_on :: "char \<Rightarrow> string \<Rightarrow> string list" where
  "split_on c [] = [[]]"
| "split_on c (x # xs) =
     (if x = c then [] # split_on c xs
      else (case split_on c xs of [] \<Rightarrow> [[x]] | y # ys \<Rightarrow> (x # y) # ys))"

text \<open>
  White space of \<open>String.prototype.trim\<close> among the code units below 256: tab, line
  feed, vertical tab, form feed, carriage return, space and the no-break space.
\<close>

definition is_ws :: "char \<Rightarrow> bool" where
  "is_ws c = (c \<in> set [CHR 0x09, CHR 0x0A, CHR 0x0B, CHR 0x0C, CHR 0x0D, CHR 0x20, CHR 0xA0])"

definition trim :: "string \<Rightarrow> string" where
  "trim s = rev (dropWhile is_ws (rev (dropWhile is_ws s)))"

text \<open>\<open>Array.prototype.join\<close> on an array of strings.\<close>

fun join :: "string \<Rightarrow> string list \<Rightarrow> string" where
  "join sep [] = []"
| "join sep [x] = x"
| "join sep (x # y # ys) = x @ sep @ join sep (y # ys)"

text \<open>Decimal digits of a number, as a template literal prints \<open>Date.now()\<close>.\<close>

fun digits :: "nat \<Rightarrow> string" where
  "digits n =
     (if n < 10 then [''0123456789'' ! n]
      else digits (n div 10) @ [''0123456789'' ! (n mod 10)])"

section \<open>The backend\<close>

text \<open>
  The helpers talk to three services through the client library: the identity service
  (\<open>supabase.auth\<close>), the object store (\<open>supabase.storage\<close>, bucket \<open>resumes\<close>) and
  the relational store (table \<open>profiles\<close>). The table, its constraints, its trigger and
  the access policies are those of the schema scripts; how a request is answered follows
  the options the helpers pass (\<open>onConflict: 'user_id'\<close>, \<open>upsert: false\<close>,
  \<open>.single()\<close>).
\<close>

record js_user =
  uid :: string

text \<open>
  A thrown value, which is also the reason a promise rejects with. Any value can be
  thrown. \<open>undefined\<close> and \<open>null\<close> have no properties: reading \<open>.message\<close> of them
  throws a \<open>TypeError\<close>. Every other value is taken as an error object; a value with no
  \<open>message\<close> of its own is the error object whose message is the text \<open>undefined\<close>,
  which is what a template literal prints for it.
\<close>

datatype thrown = ThrownUndefined | ThrownNull | ThrownError js_error

text \<open>
  A service call can fail in two ways: the promise rejects with some value (the \<open>await\<close>
  throws it), or it resolves to a response whose \<open>error\<close> is set.
\<close>

datatype fault = Rejects thrown | Fails js_error

text \<open>
  The failure of a service, if there is one, is an error response or a rejection with an
  error object: it is no rejection with \<open>undefined\<close> or \<open>null\<close>.
\<close>

definition rejects_with_error :: "fault option \<Rightarrow> bool" where
  "rejects_with_error f =
     (f \<noteq> Some (Rejects ThrownUndefined) \<and> f \<noteq> Some (Rejects ThrownNull))"

text \<open>
  What the code does not control at the time of one helper call: the signed-in identity
  of the session (\<open>auth.uid()\<close> in the policies), failures of the three services, the
  client's clock (\<open>Date.now()\<close>, \<open>new Date().toISOString()\<close>), the server's clock
  (\<open>NOW()\<close>), the identifier \<open>gen_random_uuid()\<close> would draw, and the base of the
  public URLs.
\<close>

record env =
  session :: "js_user option"
  auth_fault :: "fault option"
  storage_fault :: "fault option"
  db_fault :: "fault option"
  date_now :: nat
  iso_now :: string
  server_now :: string
  new_uuid :: string
  storage_url :: string

text \<open>A row of \<open>profiles\<close>; \<open>None\<close> is SQL \<open>NULL\<close>. Column \<open>id\<close> is \<open>row_id\<close>.\<close>

record row =
  row_id :: string
  user_id :: string
  resume_url :: "string option"
  skills :: "string list option"
  interests :: "string list option"
  experience_level :: "string option"
  preferred_location :: "string option"
  bio :: "string option"
  github_url :: "string option"
  linkedin_url :: "string option"
  portfolio_url :: "string option"
  updated_at :: "string option"

text \<open>The requests that reach a service, in the order they are made.\<close>

datatype call =
    AuthGetUser
  | StorageUpload string js_file
  | DbUpsert js_object
  | DbSelect string

record world =
  profiles :: "row list"
  resumes :: "(string \<times> js_file) list"
  trace :: "call list"

subsection \<open>Identity service\<close>

text \<open>
  \<open>supabase.auth.getUser()\<close> resolves to \<open>{ data: { user }, error }\<close>: the pair below.
\<close>

definition auth_getUser ::
  "env \<Rightarrow> world \<Rightarrow> (thrown + (js_user option \<times> js_error option)) \<times> world" where
  "auth_getUser e w =
     (let w' = w\<lparr>trace := trace w @ [AuthGetUser]\<rparr> in
      case auth_fault e of
        Some (Rejects x) \<Rightarrow> (Inl x, w')
      | Some (Fails x) \<Rightarrow> (Inr (None, Some x), w')
      | None \<Rightarrow>
          (case session e of
             None \<Rightarrow> (Inr (None, Some \<lparr>err_code = None, message = ''Auth session missing!''\<rparr>), w')
           | Some u \<Rightarrow> (Inr (Some u, None), w')))"

subsection \<open>Object store\<close>

text \<open>
  The policies of the bucket compare \<open>auth.uid()\<close> with the first folder of the object's
  name: \<open>(storage.foldername(name))[1]\<close>, which is \<open>NULL\<close> for a name without a folder.
\<close>

definition foldername1 :: "string \<Rightarrow> string option" where
  "foldername1 key =
     (case split_on CHR ''/'' key of a # b # rest \<Rightarrow> Some a | _ \<Rightarrow> None)"

definition may_write_object :: "env \<Rightarrow> string \<Rightarrow> bool" where
  "may_write_object e key =
     (case session e of None \<Rightarrow> False | Some u \<Rightarrow> foldername1 key = Some (uid u))"

text \<open>
  \<open>.upload(fileName, file, { upsert: false })\<close> resolves to \<open>{ data, error }\<close>; the
  helper reads \<open>error\<close> only. An existing object of that name is not replaced.
\<close>

definition storage_upload ::
  "env \<Rightarrow> string \<Rightarrow> js_file \<Rightarrow> world \<Rightarrow> (thrown + js_error option) \<times> world" where
  "storage_upload e key f w =
     (let w' = w\<lparr>trace := trace w @ [StorageUpload key f]\<rparr> in
      case storage_fault e of
        Some (Rejects x) \<Rightarrow> (Inl x, w')
      | Some (Fails x) \<Rightarrow> (Inr (Some x), w')
      | None \<Rightarrow>
          if \<not> may_write_object e key then
            (Inr (Some \<lparr>err_code = None,
                message = ''new row violates row-level security policy''\<rparr>), w')
          else if key \<in> set (map fst (resumes w)) then
            (Inr (Some \<lparr>err_code = None, message = ''The resource already exists''\<rparr>), w')
          else (Inr None, w'\<lparr>resumes := resumes w @ [(key, f)]\<rparr>))"

text \<open>\<open>.getPublicUrl(fileName)\<close> builds the address locally; no request is made.\<close>

definition getPublicUrl :: "env \<Rightarrow> string \<Rightarrow> string" where
  "getPublicUrl e key = storage_url e @ ''/object/public/resumes/'' @ key"

subsection \<open>Relational store\<close>

text \<open>
  The request body is the JSON of the payload: a property whose value is \<open>undefined\<close> is
  left out.
\<close>

definition json :: "js_object \<Rightarrow> js_object" where
  "json p = filter (\<lambda>kv. snd kv \<noteq> JUndefined) p"

text \<open>
  Which JSON values a column takes: \<open>id\<close> and \<open>user_id\<close> are \<open>NOT NULL\<close>, the two array
  columns take an array of strings or null, the others a string or null. A key that is no
  column is refused. (The syntax of a UUID or of a timestamp is not checked.)
\<close>

definition column_ok :: "string \<Rightarrow> jsval \<Rightarrow> bool" where
  "column_ok k v =
     (if k \<in> set [''id'', ''user_id''] then (case v of JStr s \<Rightarrow> True | _ \<Rightarrow> False)
      else if k \<in> set [''skills'', ''interests''] then
        (case v of JNull \<Rightarrow> True | JArr xs \<Rightarrow> True | _ \<Rightarrow> False)
      else if k \<in> set [''resume_url'', ''experience_level'', ''preferred_location'', ''bio'',
                        ''github_url'', ''linkedin_url'', ''portfolio_url'', ''updated_at''] then
        (case v of JNull \<Rightarrow> True | JStr s \<Rightarrow> True | _ \<Rightarrow> False)
      else False)"

definition uuid_col :: "js_object \<Rightarrow> string \<Rightarrow> string \<Rightarrow> string" where
  "uuid_col p c old = (case map_of p c of Some (JStr s) \<Rightarrow> s | _ \<Rightarrow> old)"

definition text_col :: "js_object \<Rightarrow> string \<Rightarrow> string option \<Rightarrow> string option" where
  "text_col p c old =
     (case map_of p c of None \<Rightarrow> old | Some (JStr s) \<Rightarrow> Some s | Some _ \<Rightarrow> None)"

definition array_col :: "js_object \<Rightarrow> string \<Rightarrow> string list option \<Rightarrow> string list option" where
  "array_col p c old =
     (case map_of p c of None \<Rightarrow> old | Some (JArr xs) \<Rightarrow> Some xs | Some _ \<Rightarrow> None)"

text \<open>
  The columns the payload names take the payload's values; the others keep the values of
  \<open>r\<close> (the column defaults on an insert, the existing row on an update).
\<close>

definition assign :: "js_object \<Rightarrow> row \<Rightarrow> row" where
  "assign p r =
     \<lparr>row_id = uuid_col p ''id'' (row_id r),
      user_id = uuid_col p ''user_id'' (user_id r),
      resume_url = text_col p ''resume_url'' (resume_url r),
      skills = array_col p ''skills'' (skills r),
      interests = array_col p ''interests'' (interests r),
      experience_level = text_col p ''experience_level'' (experience_level r),
      preferred_location = text_col p ''preferred_location'' (preferred_location r),
      bio = text_col p ''bio'' (bio r),
      github_url = text_col p ''github_url'' (github_url r),
      linkedin_url = text_col p ''linkedin_url'' (linkedin_url r),
      portfolio_url = text_col p ''portfolio_url'' (portfolio_url r),
      updated_at = text_col p ''updated_at'' (updated_at r)\<rparr>"

text \<open>
  The defaults of \<open>CREATE TABLE profiles\<close>: \<open>id\<close> is \<open>gen_random_uuid()\<close>, \<open>updated_at\<close>
  is \<open>NOW()\<close>, the other columns are \<open>NULL\<close>.
\<close>

definition default_row :: "env \<Rightarrow> string \<Rightarrow> row" where
  "default_row e u =
     \<lparr>row_id = new_uuid e, user_id = u, resume_url = None, skills = None, interests = None,
      experience_level = None, preferred_location = None, bio = None, github_url = None,
      linkedin_url = None, portfolio_url = None, updated_at = Some (server_now e)\<rparr>"

text \<open>The three policies of the table are all \<open>auth.uid() = user_id\<close>.\<close>

definition own_row :: "env \<Rightarrow> string \<Rightarrow> bool" where
  "own_row e u = (case session e of None \<Rightarrow> False | Some s \<Rightarrow> uid s = u)"

definition pg_error :: "string \<Rightarrow> string \<Rightarrow> js_error" where
  "pg_error c m = \<lparr>err_code = Some c, message = m\<rparr>"

text \<open>
  \<open>INSERT ... ON CONFLICT (user_id) DO UPDATE SET\<close> the payload's columns, returning the
  stored row and the new table. With no row of that \<open>user_id\<close> the proposed row is
  inserted as it is. Otherwise the existing row is updated, and the trigger
  \<open>update_profiles_updated_at\<close> (\<open>BEFORE UPDATE\<close>) sets \<open>updated_at\<close> to \<open>NOW()\<close>. A
  refused statement changes nothing.
\<close>

definition pg_upsert :: "env \<Rightarrow> js_object \<Rightarrow> row list \<Rightarrow> js_error + (row \<times> row list)" where
  "pg_upsert e p tbl =
     (let j = json p in
      if \<not> list_all (\<lambda>kv. column_ok (fst kv) (snd kv)) j then
        Inl (pg_error ''PGRST102'' ''payload does not fit the columns of profiles'')
      else
        case map_of j ''user_id'' of
          Some (JStr u) \<Rightarrow>
            if \<not> own_row e u then
              Inl (pg_error ''42501'' ''new row violates row-level security policy'')
            else
              (case find (\<lambda>r. user_id r = u) tbl of
                 None \<Rightarrow>
                   (let r = assign j (default_row e u) in
                    if row_id r \<in> set (map row_id tbl) then
                      Inl (pg_error ''23505'' ''duplicate key value violates profiles_pkey'')
                    else Inr (r, tbl @ [r]))
               | Some old \<Rightarrow>
                   (let r = (assign j old)\<lparr>updated_at := Some (server_now e)\<rparr> in
                    if row_id r \<noteq> row_id old \<and> row_id r \<in> set (map row_id tbl) then
                      Inl (pg_error ''23505'' ''duplicate key value violates profiles_pkey'')
                    else Inr (r, map (\<lambda>x. if user_id x = u then r else x) tbl)))
        | _ \<Rightarrow> Inl (pg_error ''23502'' ''null value in column user_id''))"

text \<open>
  \<open>.upsert(profileToSave, { onConflict: 'user_id' }).select()\<close> resolves to
  \<open>{ data, error }\<close>: on success \<open>data\<close> is the array of the stored rows, on an error it
  is \<open>null\<close>.
\<close>

definition db_upsert ::
  "env \<Rightarrow> js_object \<Rightarrow> world \<Rightarrow> (thrown + (row list option \<times> js_error option)) \<times> world" where
  "db_upsert e p w =
     (let w' = w\<lparr>trace := trace w @ [DbUpsert p]\<rparr> in
      case db_fault e of
        Some (Rejects x) \<Rightarrow> (Inl x, w')
      | Some (Fails x) \<Rightarrow> (Inr (None, Some x), w')
      | None \<Rightarrow>
          (case pg_upsert e p (profiles w) of
             Inl x \<Rightarrow> (Inr (None, Some x), w')
           | Inr (r, tbl) \<Rightarrow> (Inr (Some [r], None), w'\<lparr>profiles := tbl\<rparr>)))"

text \<open>
  \<open>.select('*').eq('user_id', userId).single()\<close>: the rows the select policy shows that
  have this \<open>user_id\<close>. Exactly one row is the \<open>data\<close>; any other number is the error
  \<open>PGRST116\<close> with \<open>data\<close> \<open>null\<close>.
\<close>

definition pg_select_single :: "env \<Rightarrow> string \<Rightarrow> row list \<Rightarrow> js_error + row" where
  "pg_select_single e userId tbl =
     (case filter (\<lambda>r. own_row e (user_id r) \<and> user_id r = userId) tbl of
        [r] \<Rightarrow> Inr r
      | _ \<Rightarrow> Inl (pg_error ''PGRST116'' ''JSON object requested, multiple (or no) rows returned''))"

definition db_select ::
  "env \<Rightarrow> string \<Rightarrow> world \<Rightarrow> (thrown + (row option \<times> js_error option)) \<times> world" where
  "db_select e userId w =
     (let w' = w\<lparr>trace := trace w @ [DbSelect userId]\<rparr> in
      case db_fault e of
        Some (Rejects x) \<Rightarrow> (Inl x, w')
      | Some (Fails x) \<Rightarrow> (Inr (None, Some x), w')
      | None \<Rightarrow>
          (case pg_select_single e userId (profiles w) of
             Inl x \<Rightarrow> (Inr (None, Some x), w')
           | Inr r \<Rightarrow> (Inr (Some r, None), w')))"

section \<open>The helpers of \<open>lib/profileHelpers.js\<close>\<close>

text \<open>
  Every helper is \<open>async\<close> and its whole body is one \<open>try\<close> with a \<open>catch\<close>. A
  function named \<open>..._try\<close> is the \<open>try\<close> block: \<open>Inl x\<close> is an exception thrown in it
  (a rejected \<open>await\<close>, or a \<open>TypeError\<close> of the block itself), \<open>Inr r\<close> a
  \<open>return r\<close>. The helper itself returns \<open>Inr r\<close> when its promise fulfils with \<open>r\<close>
  and \<open>Inl x\<close> when it rejects with \<open>x\<close>. The world is passed through;
  \<open>console.error\<close> is not modelled.

  The result objects: \<open>success\<close> and \<open>error\<close> are common to all helpers; a property
  that the returned literal leaves out is \<open>None\<close>.
\<close>

definition type_error :: "string \<Rightarrow> js_error" where
  "type_error m = \<lparr>err_code = None, message = m\<rparr>"

text \<open>
  The \<open>catch (error)\<close> block of every helper builds its message with a template literal,
  \<^verbatim>\<open>`Upload failed: ${error.message}`\<close> and the like. For an error object this is the
  prefix followed by its message. For \<open>undefined\<close> and \<open>null\<close> the property read
  throws inside the handler, which nothing catches.
\<close>

definition caught :: "string \<Rightarrow> thrown \<Rightarrow> thrown + string" where
  "caught prefix x =
     (case x of
        ThrownError err \<Rightarrow> Inr (prefix @ message err)
      | ThrownUndefined \<Rightarrow>
          Inl (ThrownError (type_error ''Cannot read properties of undefined (reading message)''))
      | ThrownNull \<Rightarrow>
          Inl (ThrownError (type_error ''Cannot read properties of null (reading message)'')))"

record outcome =
  success :: bool
  error :: "string option"

record upload_result = outcome +
  url :: "string option"

record data_result = outcome +
  data :: "row option"

record user_profile_result = outcome +
  user :: "js_user option"
  profile :: "row option"

subsection \<open>\<open>uploadResume\<close>\<close>

definition allowedTypes :: "string list" where
  "allowedTypes = [''application/pdf'', ''application/msword'',
     ''application/vnd.openxmlformats-officedocument.wordprocessingml.document'']"

definition maxSize :: nat where
  "maxSize = 10 * 1024 * 1024"

definition uploadResume_try ::
  "env \<Rightarrow> js_file \<Rightarrow> string \<Rightarrow> world \<Rightarrow> (thrown + upload_result) \<times> world" where
  "uploadResume_try e file userId w =
     (if file_type file \<notin> set allowedTypes then
        (Inr \<lparr>success = False,
              error = Some ''Invalid file type. Please upload a PDF, DOC, or DOCX file.'',
              url = None\<rparr>, w)
      else if file_size file > maxSize then
        (Inr \<lparr>success = False,
              error = Some ''File size too large. Please upload a file smaller than 10MB.'',
              url = None\<rparr>, w)
      else
        (let timestamp = date_now e;
             fileExtension = last (split_on CHR ''.'' (file_name file));
             fileName = userId @ ''/'' @ digits timestamp @ ''.'' @ fileExtension
         in case storage_upload e fileName file w of
              (Inl x, w') \<Rightarrow> (Inl x, w')
            | (Inr (Some err), w') \<Rightarrow>
                (Inr \<lparr>success = False, error = Some (''Upload failed: '' @ message err),
                      url = None\<rparr>, w')
            | (Inr None, w') \<Rightarrow>
                (Inr \<lparr>success = True, error = None,
                      url = Some (getPublicUrl e fileName)\<rparr>, w')))"

definition uploadResume ::
  "env \<Rightarrow> js_file \<Rightarrow> string \<Rightarrow> world \<Rightarrow> (thrown + upload_result) \<times> world" where
  "uploadResume e file userId w =
     (case uploadResume_try e file userId w of
        (Inl x, w') \<Rightarrow>
          (case caught ''Upload failed: '' x of
             Inl y \<Rightarrow> (Inl y, w')
           | Inr m \<Rightarrow> (Inr \<lparr>success = False, error = Some m, url = None\<rparr>, w'))
      | (Inr r, w') \<Rightarrow> (Inr r, w'))"

subsection \<open>\<open>saveProfile\<close>\<close>

text \<open>
  The object literal \<open>{ user_id: user.id, ...profileData, updated_at: new
  Date().toISOString() }\<close>: its properties are defined from left to right.
\<close>

definition profileToSave :: "env \<Rightarrow> js_user \<Rightarrow> js_object \<Rightarrow> js_object" where
  "profileToSave e u profileData =
     set_prop ''updated_at'' (JStr (iso_now e))
       (spread [(''user_id'', JStr (uid u))] profileData)"

text \<open>
  \<open>data[0]\<close>: reading an index of \<open>null\<close> throws a \<open>TypeError\<close>; the first element of
  an empty array is \<open>undefined\<close>.
\<close>

definition saveProfile_try ::
  "env \<Rightarrow> js_object \<Rightarrow> world \<Rightarrow> (thrown + data_result) \<times> world" where
  "saveProfile_try e profileData w =
     (case auth_getUser e w of
        (Inl x, w1) \<Rightarrow> (Inl x, w1)
      | (Inr (Some u, None), w1) \<Rightarrow>
          (case db_upsert e (profileToSave e u profileData) w1 of
             (Inl x, w2) \<Rightarrow> (Inl x, w2)
           | (Inr (d, Some err), w2) \<Rightarrow>
               (Inr \<lparr>success = False,
                     error = Some (''Failed to save profile: '' @ message err),
                     data = None\<rparr>, w2)
           | (Inr (None, None), w2) \<Rightarrow>
               (Inl (ThrownError (type_error ''Cannot read properties of null (reading 0)'')), w2)
           | (Inr (Some rows, None), w2) \<Rightarrow>
               (Inr \<lparr>success = True, error = None,
                     data = (case rows of [] \<Rightarrow> None | r # rs \<Rightarrow> Some r)\<rparr>, w2))
      | (Inr (usr, userError), w1) \<Rightarrow>
          (Inr \<lparr>success = False, error = Some ''User not authenticated'', data = None\<rparr>, w1))"

definition saveProfile ::
  "env \<Rightarrow> js_object \<Rightarrow> world \<Rightarrow> (thrown + data_result) \<times> world" where
  "saveProfile e profileData w =
     (case saveProfile_try e profileData w of
        (Inl x, w') \<Rightarrow>
          (case caught ''Failed to save profile: '' x of
             Inl y \<Rightarrow> (Inl y, w')
           | Inr m \<Rightarrow> (Inr \<lparr>success = False, error = Some m, data = None\<rparr>, w'))
      | (Inr r, w') \<Rightarrow> (Inr r, w'))"

subsection \<open>\<open>loadProfile\<close>\<close>

definition loadProfile_try ::
  "env \<Rightarrow> string \<Rightarrow> world \<Rightarrow> (thrown + data_result) \<times> world" where
  "loadProfile_try e userId w =
     (case db_select e userId w of
        (Inl x, w') \<Rightarrow> (Inl x, w')
      | (Inr (d, Some err), w') \<Rightarrow>
          (if err_code err = Some ''PGRST116'' then
             (Inr \<lparr>success = True, error = None, data = None\<rparr>, w')
           else
             (Inr \<lparr>success = False,
                   error = Some (''Failed to load profile: '' @ message err),
                   data = None\<rparr>, w'))
      | (Inr (d, None), w') \<Rightarrow> (Inr \<lparr>success = True, error = None, data = d\<rparr>, w'))"

definition loadProfile ::
  "env \<Rightarrow> string \<Rightarrow> world \<Rightarrow> (thrown + data_result) \<times> world" where
  "loadProfile e userId w =
     (case loadProfile_try e userId w of
        (Inl x, w') \<Rightarrow>
          (case caught ''Failed to load profile: '' x of
             Inl y \<Rightarrow> (Inl y, w')
           | Inr m \<Rightarrow> (Inr \<lparr>success = False, error = Some m, data = None\<rparr>, w'))
      | (Inr r, w') \<Rightarrow> (Inr r, w'))"

subsection \<open>\<open>getCurrentUserWithProfile\<close>\<close>

definition getCurrentUserWithProfile_try ::
  "env \<Rightarrow> world \<Rightarrow> (thrown + user_profile_result) \<times> world" where
  "getCurrentUserWithProfile_try e w =
     (case auth_getUser e w of
        (Inl x, w1) \<Rightarrow> (Inl x, w1)
      | (Inr (Some u, None), w1) \<Rightarrow>
          (case loadProfile e (uid u) w1 of
             (Inl x, w2) \<Rightarrow> (Inl x, w2)
           | (Inr profileResult, w2) \<Rightarrow>
               if \<not> success profileResult then
                 (Inr \<lparr>success = False, error = error profileResult,
                       user = None, profile = None\<rparr>, w2)
               else
                 (Inr \<lparr>success = True, error = None,
                       user = Some u, profile = data profileResult\<rparr>, w2))
      | (Inr (usr, userError), w1) \<Rightarrow>
          (Inr \<lparr>success = False, error = Some ''User not authenticated'',
                user = None, profile = None\<rparr>, w1))"

definition getCurrentUserWithProfile ::
  "env \<Rightarrow> world \<Rightarrow> (thrown + user_profile_result) \<times> world" where
  "getCurrentUserWithProfile e w =
     (case getCurrentUserWithProfile_try e w of
        (Inl x, w') \<Rightarrow>
          (case caught ''Failed to get user data: '' x of
             Inl y \<Rightarrow> (Inl y, w')
           | Inr m \<Rightarrow>
               (Inr \<lparr>success = False, error = Some m, user = None, profile = None\<rparr>, w'))
      | (Inr r, w') \<Rightarrow> (Inr r, w'))"

section \<open>The form component \<open>ProfileForm\<close>\<close>

text \<open>
  The state variables of the component. The variables \<open>user\<close>, \<open>profile\<close>, \<open>error\<close>
  and \<open>success\<close> are \<open>user_st\<close>, \<open>profile_st\<close>, \<open>error_st\<close> and \<open>success_st\<close> here
  (the result objects have properties of the same names). \<open>error_st\<close> is \<open>None\<close> when
  \<open>setError\<close> was given \<open>undefined\<close>. \<open>formData\<close> is an object: \<open>handleInputChange\<close>
  defines the property the event names.
\<close>

record component =
  loading :: bool
  saving :: bool
  user_st :: "js_user option"
  profile_st :: "row option"
  error_st :: "string option"
  success_st :: string
  resumeFile :: "js_file option"
  existingResumeUrl :: string
  formData :: "(string \<times> string) list"

definition initial :: component where
  "initial =
     \<lparr>loading = True, saving = False, user_st = None, profile_st = None,
      error_st = Some [], success_st = [], resumeFile = None, existingResumeUrl = [],
      formData = [(''skills'', []), (''interests'', []), (''experience_level'', []),
        (''preferred_location'', []), (''bio'', []), (''github_url'', []),
        (''linkedin_url'', []), (''portfolio_url'', [])]\<rparr>"

text \<open>\<open>value || ''\<close> on a column: \<open>null\<close> and the empty string both give \<open>''\<close>.\<close>

definition or_empty :: "string option \<Rightarrow> string" where
  "or_empty v = (case v of None \<Rightarrow> [] | Some t \<Rightarrow> t)"

text \<open>\<open>xs ? xs.join(', ') : ''\<close> on an array column: every array is truthy.\<close>

definition join_or_empty :: "string list option \<Rightarrow> string" where
  "join_or_empty v = (case v of None \<Rightarrow> [] | Some xs \<Rightarrow> join '', '' xs)"

definition loadUserData :: "env \<Rightarrow> component \<Rightarrow> world \<Rightarrow> component \<times> world" where
  "loadUserData e s w =
     (let s1 = s\<lparr>loading := True, error_st := Some []\<rparr> in
      case getCurrentUserWithProfile e w of
        (Inl x, w') \<Rightarrow> (s1\<lparr>error_st := Some ''Failed to load user data'', loading := False\<rparr>, w')
      | (Inr result, w') \<Rightarrow>
          if \<not> success result then (s1\<lparr>error_st := error result, loading := False\<rparr>, w')
          else
            (let s2 = s1\<lparr>user_st := user result\<rparr> in
             case profile result of
               None \<Rightarrow> (s2\<lparr>loading := False\<rparr>, w')
             | Some p \<Rightarrow>
                 (s2\<lparr>profile_st := Some p,
                     existingResumeUrl := or_empty (resume_url p),
                     formData :=
                       [(''skills'', join_or_empty (skills p)),
                        (''interests'', join_or_empty (interests p)),
                        (''experience_level'', or_empty (experience_level p)),
                        (''preferred_location'', or_empty (preferred_location p)),
                        (''bio'', or_empty (bio p)),
                        (''github_url'', or_empty (github_url p)),
                        (''linkedin_url'', or_empty (linkedin_url p)),
                        (''portfolio_url'', or_empty (portfolio_url p))],
                     loading := False\<rparr>, w')))"

text \<open>\<open>setFormData(prev => ({ ...prev, [name]: value }))\<close>\<close>

definition handleInputChange :: "string \<Rightarrow> string \<Rightarrow> component \<Rightarrow> component" where
  "handleInputChange name v s = s\<lparr>formData := set_prop name v (formData s)\<rparr>"

text \<open>
  \<open>e.target.files[0]\<close> of the change event: \<open>undefined\<close> when the list of files is
  empty.
\<close>

definition handleFileChange :: "js_file list \<Rightarrow> component \<Rightarrow> component" where
  "handleFileChange files s =
     (case files of
        [] \<Rightarrow> s
      | file # rest \<Rightarrow> s\<lparr>resumeFile := Some file, existingResumeUrl := []\<rparr>)"

text \<open>
  \<open>formData.skills.split(',').map(skill => skill.trim()).filter(skill => skill.length > 0)\<close>,
  and the same for the interests.
\<close>

definition to_array :: "string \<Rightarrow> string list" where
  "to_array s = filter (\<lambda>x. length x > 0) (map trim (split_on CHR '','' s))"

text \<open>A property of \<open>formData\<close> or a variable as a value of the payload.\<close>

definition str_or_undefined :: "string option \<Rightarrow> jsval" where
  "str_or_undefined v = (case v of None \<Rightarrow> JUndefined | Some t \<Rightarrow> JStr t)"

text \<open>
  \<open>handleSubmit\<close> from the comment \<open>Convert comma-separated strings to arrays\<close> to the
  end of its \<open>try\<close> block, for the state \<open>s\<close> the handler has reached (its \<open>formData\<close>
  is the one the handler closed over) and the \<open>resumeUrl\<close> found so far. Calling
  \<open>split\<close> on a missing property throws a \<open>TypeError\<close>.
\<close>

definition save_step ::
  "env \<Rightarrow> component \<Rightarrow> string option \<Rightarrow> world \<Rightarrow> (thrown + component) \<times> world" where
  "save_step e s resumeUrl w =
     (case map_of (formData s) ''skills'' of
        None \<Rightarrow>
          (Inl (ThrownError (type_error ''Cannot read properties of undefined (reading split)'')), w)
      | Some sk \<Rightarrow>
      (case map_of (formData s) ''interests'' of
        None \<Rightarrow>
          (Inl (ThrownError (type_error ''Cannot read properties of undefined (reading split)'')), w)
      | Some it \<Rightarrow>
         (let skillsArray = to_array sk;
              interestsArray = to_array it;
              field = (\<lambda>k. str_or_undefined (map_of (formData s) k));
              profileData =
                [(''resume_url'', str_or_undefined resumeUrl),
                 (''skills'', JArr skillsArray),
                 (''interests'', JArr interestsArray),
                 (''experience_level'', field ''experience_level''),
                 (''preferred_location'', field ''preferred_location''),
                 (''bio'', field ''bio''),
                 (''github_url'', field ''github_url''),
                 (''linkedin_url'', field ''linkedin_url''),
                 (''portfolio_url'', field ''portfolio_url'')]
          in case saveProfile e profileData w of
               (Inl x, w') \<Rightarrow> (Inl x, w')
             | (Inr saveResult, w') \<Rightarrow>
                 if \<not> success saveResult then (Inr (s\<lparr>error_st := error saveResult\<rparr>), w')
                 else
                   (Inr (s\<lparr>profile_st := data saveResult,
                           success_st := ''Profile saved successfully!'',
                           resumeFile := None\<rparr>), w'))))"

text \<open>
  \<open>handleSubmit\<close>. Without a user it sets the error and returns. Otherwise the \<open>try\<close>
  block runs: the upload when a file is staged, then \<open>save_step\<close>; \<open>catch\<close> sets the
  error \<open>Failed to save profile\<close>, and \<open>finally\<close> ends the saving state on every path.
\<close>

definition handleSubmit :: "env \<Rightarrow> component \<Rightarrow> world \<Rightarrow> component \<times> world" where
  "handleSubmit e s w =
     (case user_st s of
        None \<Rightarrow> (s\<lparr>error_st := Some ''User not authenticated''\<rparr>, w)
      | Some u \<Rightarrow>
          (let s1 = s\<lparr>saving := True, error_st := Some [], success_st := []\<rparr>;
               tried =
                 (case resumeFile s of
                    None \<Rightarrow> save_step e s1 (Some (existingResumeUrl s)) w
                  | Some f \<Rightarrow>
                      (case uploadResume e f (uid u) w of
                         (Inl x, w1) \<Rightarrow> (Inl x, w1)
                       | (Inr uploadResult, w1) \<Rightarrow>
                           if \<not> success uploadResult then
                             (Inr (s1\<lparr>error_st := error uploadResult\<rparr>), w1)
                           else save_step e s1 (url uploadResult) w1))
           in case tried of
                (Inl x, w') \<Rightarrow>
                  (s1\<lparr>error_st := Some ''Failed to save profile'', saving := False\<rparr>, w')
              | (Inr s2, w') \<Rightarrow> (s2\<lparr>saving := False\<rparr>, w')))"

section \<open>Example inputs\<close>

text \<open>
  A signed-in user, a moment at which every service answers, a moment at which every
  request is rejected, an empty backend, and three files.
\<close>

definition alice :: js_user where
  "alice = \<lparr>uid = ''a11ce''\<rparr>"

definition calm :: env where
  "calm = \<lparr>session = Some alice, auth_fault = None, storage_fault = None, db_fault = None,
     date_now = 1700000000000, iso_now = ''2023-11-14T22:13:20.000Z'',
     server_now = ''2023-11-14 22:13:21.5+00'', new_uuid = ''row-1'',
     storage_url = ''https://project.supabase.co/storage/v1''\<rparr>"

definition offline :: js_error where
  "offline = \<lparr>err_code = None, message = ''Failed to fetch''\<rparr>"

definition stormy :: env where
  "stormy = calm\<lparr>auth_fault := Some (Rejects (ThrownError offline)),
     storage_fault := Some (Rejects (ThrownError offline)),
     db_fault := Some (Rejects (ThrownError offline))\<rparr>"

text \<open>A moment at which every request is rejected with \<open>undefined\<close>.\<close>

definition mute :: env where
  "mute = calm\<lparr>auth_fault := Some (Rejects ThrownUndefined),
     storage_fault := Some (Rejects ThrownUndefined),
     db_fault := Some (Rejects ThrownUndefined)\<rparr>"

definition empty_world :: world where
  "empty_world = \<lparr>profiles = [], resumes = [], trace = []\<rparr>"

definition cv_pdf :: js_file where
  "cv_pdf = \<lparr>file_type = ''application/pdf'', file_size = 10485760, file_name = ''cv.final.pdf''\<rparr>"

definition scan_pdf :: js_file where
  "scan_pdf = \<lparr>file_type = ''application/pdf'', file_size = 10485761, file_name = ''scan.pdf''\<rparr>"

definition notes_txt :: js_file where
  "notes_txt = \<lparr>file_type = ''text/plain'', file_size = 12, file_name = ''notes.txt''\<rparr>"


section \<open>Evaluation of the examples\<close>

lemmas run_defs =
  saveProfile_def saveProfile_try_def auth_getUser_def db_upsert_def pg_upsert_def
  profileToSave_def json_def column_ok_def own_row_def assign_def default_row_def
  uuid_col_def text_col_def array_col_def pg_error_def type_error_def
  loadProfile_def loadProfile_try_def db_select_def pg_select_single_def
  uploadResume_def uploadResume_try_def storage_upload_def may_write_object_def
  foldername1_def getPublicUrl_def allowedTypes_def maxSize_def
  getCurrentUserWithProfile_def getCurrentUserWithProfile_try_def
  handleSubmit_def save_step_def str_or_undefined_def to_array_def trim_def is_ws_def
  loadUserData_def handleInputChange_def handleFileChange_def initial_def or_empty_def
  join_or_empty_def caught_def Let_def

lemmas example_defs = alice_def calm_def stormy_def mute_def offline_def empty_world_def cv_pdf_def
  scan_pdf_def notes_txt_def

section \<open>Splitting, trimming and joining\<close>

lemma split_on_nonempty: "split_on c s \<noteq> []"
  by (induction s) (auto split: list.splits)

lemma split_on_no_sep: "c \<notin> set a \<Longrightarrow> split_on c a = [a]"
  by (induction a) auto

lemma split_on_append: "c \<notin> set a \<Longrightarrow> split_on c (a @ c # rest) = a # split_on c rest"
  by (induction a) auto

lemma split_on_free: "x \<in> set (split_on c s) \<Longrightarrow> c \<notin> set x"
  by (induction s arbitrary: x) (auto split: if_splits list.splits)

lemma dropWhile_hd: "xs \<noteq> [] \<Longrightarrow> \<not> P (hd xs) \<Longrightarrow> dropWhile P xs = xs"
  by (cases xs) auto

lemma trim_id:
  assumes "x \<noteq> []" "\<not> is_ws (hd x)" "\<not> is_ws (last x)"
  shows "trim x = x"
proof -
  have front: "dropWhile is_ws x = x" using assms(1,2) by (rule dropWhile_hd)
  have "\<not> is_ws (hd (rev x))" using assms(1,3) by (simp add: hd_rev)
  then have "dropWhile is_ws (rev x) = rev x" using assms(1) by (intro dropWhile_hd) simp_all
  then show ?thesis using front by (simp add: trim_def)
qed

lemma trim_ws_prefix: "is_ws c \<Longrightarrow> trim (c # x) = trim x"
  by (simp add: trim_def)

lemma trim_ends:
  assumes "trim s \<noteq> []"
  shows "\<not> is_ws (hd (trim s)) \<and> \<not> is_ws (last (trim s))"
proof -
  define t where "t = dropWhile is_ws s"
  define v where "v = dropWhile is_ws (rev t)"
  have tv: "trim s = rev v" by (simp add: trim_def t_def v_def)
  have v: "v \<noteq> []" using assms tv by simp
  have front: "\<not> is_ws (hd v)" using v unfolding v_def by (rule hd_dropWhile)
  have "t \<noteq> []" using v by (auto simp: v_def)
  then have t: "\<not> is_ws (hd t)" unfolding t_def by (rule hd_dropWhile)
  obtain p where "rev t = p @ v" unfolding v_def by (metis takeWhile_dropWhile_id)
  then have "t = rev v @ rev p" by (metis rev_append rev_rev_ident)
  then have "hd (rev v) = hd t" using v by simp
  then show ?thesis using front t v tv by (simp add: last_rev)
qed

lemma trim_subset: "set (trim s) \<subseteq> set s"
  unfolding trim_def by (metis set_dropWhileD set_rev subsetI)

lemma to_array_cons:
  assumes "x \<noteq> []" "\<not> is_ws (hd x)" "\<not> is_ws (last x)" "CHR '','' \<notin> set x"
  shows "to_array (x @ '', '' @ rest) = x # to_array rest"
proof -
  have ws: "is_ws CHR '' ''" by (simp add: is_ws_def)
  have s: "split_on CHR '','' (x @ CHR '','' # CHR '' '' # rest)
        = x # split_on CHR '','' (CHR '' '' # rest)"
    using assms(4) by (rule split_on_append)
  obtain y ys where y: "split_on CHR '','' rest = y # ys"
    by (cases "split_on CHR '','' rest") (auto simp: split_on_nonempty)
  have "to_array (x @ '', '' @ rest) =
        filter (\<lambda>x. length x > 0) (trim x # trim (CHR '' '' # y) # map trim ys)"
    using s y by (simp add: to_array_def)
  also have "\<dots> = x # filter (\<lambda>x. length x > 0) (trim y # map trim ys)"
    using assms by (simp add: trim_id trim_ws_prefix[OF ws])
  also have "\<dots> = x # to_array rest"
    using y by (simp add: to_array_def)
  finally show ?thesis .
qed

lemma to_array_join:
  "list_all (\<lambda>x. x \<noteq> [] \<and> \<not> is_ws (hd x) \<and> \<not> is_ws (last x) \<and> CHR '','' \<notin> set x) xs \<Longrightarrow>
   to_array (join '', '' xs) = xs"
proof (induction xs rule: induct_list012)
  case 1
  then show ?case by (simp add: to_array_def trim_def)
next
  case (2 x)
  then show ?case by (simp add: to_array_def split_on_no_sep trim_id)
next
  case (3 x y ys)
  have "to_array (join '', '' (x # y # ys)) = to_array (x @ '', '' @ join '', '' (y # ys))"
    by simp
  also have "\<dots> = x # to_array (join '', '' (y # ys))"
    using 3(3) by (intro to_array_cons) simp_all
  also have "\<dots> = x # y # ys" using 3 by simp
  finally show ?case .
qed

lemma to_array_elements:
  assumes "x \<in> set (to_array s)"
  shows "x \<noteq> [] \<and> \<not> is_ws (hd x) \<and> \<not> is_ws (last x) \<and> CHR '','' \<notin> set x"
proof -
  obtain p where p: "p \<in> set (split_on CHR '','' s)" and x: "x = trim p" and ne: "x \<noteq> []"
    using assms by (auto simp: to_array_def)
  have "CHR '','' \<notin> set p" using p by (rule split_on_free)
  then have "CHR '','' \<notin> set x" using trim_subset[of p] x by auto
  then show ?thesis using trim_ends[of p] x ne by simp
qed

text \<open>
  Claim C7. The conversion of the skills and interests text splits the field on commas,
  trims white space from each segment and drops the empty segments, in this order and
  keeping duplicates: \<open>"React, Node, React"\<close> gives \<open>["React", "Node", "React"]\<close> and
  \<open>" , ,"\<close> gives the empty sequence. Every element of a result is non-empty, has no
  white space at either end and holds no comma; and a sequence of such elements, written
  with \<open>", "\<close> between them, is read back as it is.
\<close>

theorem to_array_split_trim_drop:
  "to_array s = filter (\<lambda>x. x \<noteq> []) (map trim (split_on CHR '','' s)) \<and>
   to_array ''React, Node, React'' = [''React'', ''Node'', ''React''] \<and>
   to_array '' , ,'' = [] \<and>
   (\<forall>x \<in> set (to_array s).
      x \<noteq> [] \<and> \<not> is_ws (hd x) \<and> \<not> is_ws (last x) \<and> CHR '','' \<notin> set x) \<and>
   (list_all (\<lambda>x. x \<noteq> [] \<and> \<not> is_ws (hd x) \<and> \<not> is_ws (last x) \<and> CHR '','' \<notin> set x) xs \<longrightarrow>
      to_array (join '', '' xs) = xs)"
proof -
  have "to_array s = filter (\<lambda>x. x \<noteq> []) (map trim (split_on CHR '','' s))"
    by (simp add: to_array_def)
  moreover have "to_array ''React, Node, React'' = [''React'', ''Node'', ''React'']"
    by (simp add: to_array_def trim_def is_ws_def)
  moreover have "to_array '' , ,'' = []"
    by (simp add: to_array_def trim_def is_ws_def)
  ultimately show ?thesis using to_array_elements[of _ s] to_array_join[of xs] by blast
qed

theorem to_array_split_trim_drop_witness:
  "list_all (\<lambda>x. x \<noteq> [] \<and> \<not> is_ws (hd x) \<and> \<not> is_ws (last x) \<and> CHR '','' \<notin> set x)
     [''React'', ''Node'', ''React''] \<and>
   to_array (join '', '' [''React'', ''Node'', ''React'']) = [''React'', ''Node'', ''React''] \<and>
   to_array ''  C++ ,, Go ,'' = [''C++'', ''Go''] \<and>
   \<not> is_ws (hd ''C++'') \<and> \<not> is_ws (last ''C++'') \<and> CHR '','' \<notin> set ''C++''"
proof -
  let ?ok = "\<lambda>x. x \<noteq> [] \<and> \<not> is_ws (hd x) \<and> \<not> is_ws (last x) \<and> CHR '','' \<notin> set x"
  note t = to_array_split_trim_drop[of "''  C++ ,, Go ,''" "[''React'', ''Node'', ''React'']"]
  have ok: "list_all ?ok [''React'', ''Node'', ''React'']"
    by (simp add: is_ws_def)
  have rt: "to_array (join '', '' [''React'', ''Node'', ''React'']) = [''React'', ''Node'', ''React'']"
    using t ok by blast
  have seen: "to_array ''  C++ ,, Go ,'' = [''C++'', ''Go'']"
    by (simp add: to_array_def trim_def is_ws_def)
  have "\<forall>x \<in> set (to_array ''  C++ ,, Go ,''). ?ok x" using t by blast
  moreover have "''C++'' \<in> set (to_array ''  C++ ,, Go ,'')" unfolding seen by simp
  ultimately have "?ok ''C++''" by blast
  then show ?thesis using ok rt seen by blast
qed

section \<open>Selecting a file\<close>

text \<open>
  Claim C10. A change event of the file input that carries no file leaves the state as it
  is, so the staged file and the known resume URL keep their values; an event that
  carries a file stages its first file and clears the known resume URL, and changes no
  other state variable. Hence these two variables change only on an event with a file.
\<close>

theorem handleFileChange_frame:
  "handleFileChange [] s = s \<and>
   handleFileChange (f # fs) s = s\<lparr>resumeFile := Some f, existingResumeUrl := []\<rparr> \<and>
   (resumeFile (handleFileChange files s) \<noteq> resumeFile s \<or>
    existingResumeUrl (handleFileChange files s) \<noteq> existingResumeUrl s \<longrightarrow> files \<noteq> [])"
  by (auto simp: handleFileChange_def)

theorem handleFileChange_frame_witness:
  "handleFileChange [] (initial\<lparr>existingResumeUrl := ''https://old/cv.pdf''\<rparr>) =
     initial\<lparr>existingResumeUrl := ''https://old/cv.pdf''\<rparr> \<and>
   resumeFile (handleFileChange [cv_pdf] (initial\<lparr>existingResumeUrl := ''https://old/cv.pdf''\<rparr>))
     = Some cv_pdf \<and>
   existingResumeUrl (handleFileChange [cv_pdf] (initial\<lparr>existingResumeUrl := ''https://old/cv.pdf''\<rparr>))
     = [] \<and>
   formData (handleFileChange [cv_pdf] (initial\<lparr>existingResumeUrl := ''https://old/cv.pdf''\<rparr>))
     = formData initial \<and>
   existingResumeUrl (initial\<lparr>existingResumeUrl := ''https://old/cv.pdf''\<rparr>) \<noteq> [] \<and>
   [cv_pdf] \<noteq> []"
  using handleFileChange_frame[of "initial\<lparr>existingResumeUrl := ''https://old/cv.pdf''\<rparr>"
      cv_pdf "[]" "[cv_pdf]"]
  by simp

section \<open>Uploading a resume\<close>

lemma storage_upload_world:
  "storage_upload e key f w = (r, w') \<Longrightarrow>
     profiles w' = profiles w \<and> trace w' = trace w @ [StorageUpload key f]"
  by (auto simp: storage_upload_def Let_def split: option.splits fault.splits if_splits)

lemma uploadResume_bad_type:
  "file_type f \<notin> set allowedTypes \<Longrightarrow>
   uploadResume e f userId w =
     (Inr \<lparr>success = False,
           error = Some ''Invalid file type. Please upload a PDF, DOC, or DOCX file.'',
           url = None\<rparr>, w)"
  by (simp add: uploadResume_def uploadResume_try_def)

lemma uploadResume_too_large:
  "file_type f \<in> set allowedTypes \<Longrightarrow> file_size f > maxSize \<Longrightarrow>
   uploadResume e f userId w =
     (Inr \<lparr>success = False,
           error = Some ''File size too large. Please upload a file smaller than 10MB.'',
           url = None\<rparr>, w)"
  by (simp add: uploadResume_def uploadResume_try_def)

lemma uploadResume_stores:
  assumes "file_type f \<in> set allowedTypes" "file_size f \<le> maxSize"
  shows "trace (snd (uploadResume e f userId w)) =
     trace w @ [StorageUpload (userId @ ''/'' @ digits (date_now e) @ ''.'' @
        last (split_on CHR ''.'' (file_name f))) f]"
proof -
  let ?k = "userId @ ''/'' @ digits (date_now e) @ ''.'' @ last (split_on CHR ''.'' (file_name f))"
  obtain r w' where s: "storage_upload e ?k f w = (r, w')"
    by (cases "storage_upload e ?k f w")
  then have "trace w' = trace w @ [StorageUpload ?k f]"
    using storage_upload_world by blast
  then show ?thesis
    using assms s
    by (simp add: uploadResume_def uploadResume_try_def Let_def del: digits.simps
        split: sum.splits option.splits)
qed

lemma uploadResume_profiles: "profiles (snd (uploadResume e f userId w)) = profiles w"
proof -
  let ?k = "userId @ ''/'' @ digits (date_now e) @ ''.'' @ last (split_on CHR ''.'' (file_name f))"
  obtain r w' where s: "storage_upload e ?k f w = (r, w')"
    by (cases "storage_upload e ?k f w")
  then have "profiles w' = profiles w" using storage_upload_world by blast
  then show ?thesis
    using s
    by (simp add: uploadResume_def uploadResume_try_def Let_def del: digits.simps
        split: sum.splits option.splits)
qed

text \<open>
  Claim C3. For a file whose MIME type is none of \<open>application/pdf\<close>,
  \<open>application/msword\<close> and
  \<open>application/vnd.openxmlformats-officedocument.wordprocessingml.document\<close>, the upload
  declines with the type message and the world is untouched (no request is made). For a
  file of an allowed type with more than 10 * 1024 * 1024 bytes it declines with the size
  message, again without a request. For a file of an allowed type with at most that many
  bytes, the upload request for the key \<open>userId/timestamp.extension\<close> is made.
\<close>

theorem uploadResume_validation:
  "(file_type f \<notin> set [''application/pdf'', ''application/msword'',
       ''application/vnd.openxmlformats-officedocument.wordprocessingml.document''] \<longrightarrow>
     uploadResume e f userId w =
       (Inr \<lparr>success = False,
             error = Some ''Invalid file type. Please upload a PDF, DOC, or DOCX file.'',
             url = None\<rparr>, w)) \<and>
   (file_type f \<in> set [''application/pdf'', ''application/msword'',
       ''application/vnd.openxmlformats-officedocument.wordprocessingml.document''] \<and>
    file_size f > 10 * 1024 * 1024 \<longrightarrow>
     uploadResume e f userId w =
       (Inr \<lparr>success = False,
             error = Some ''File size too large. Please upload a file smaller than 10MB.'',
             url = None\<rparr>, w)) \<and>
   (file_type f \<in> set [''application/pdf'', ''application/msword'',
       ''application/vnd.openxmlformats-officedocument.wordprocessingml.document''] \<and>
    file_size f \<le> 10 * 1024 * 1024 \<longrightarrow>
     trace (snd (uploadResume e f userId w)) =
       trace w @ [StorageUpload (userId @ ''/'' @ digits (date_now e) @ ''.'' @
          last (split_on CHR ''.'' (file_name f))) f])"
  using uploadResume_bad_type[of f e userId w] uploadResume_too_large[of f e userId w]
    uploadResume_stores[of f e userId w]
  unfolding allowedTypes_def maxSize_def by blast

theorem uploadResume_validation_witness:
  "uploadResume calm notes_txt ''a11ce'' empty_world =
     (Inr \<lparr>success = False,
           error = Some ''Invalid file type. Please upload a PDF, DOC, or DOCX file.'',
           url = None\<rparr>, empty_world) \<and>
   uploadResume calm scan_pdf ''a11ce'' empty_world =
     (Inr \<lparr>success = False,
           error = Some ''File size too large. Please upload a file smaller than 10MB.'',
           url = None\<rparr>, empty_world) \<and>
   trace (snd (uploadResume calm cv_pdf ''a11ce'' empty_world)) =
     [StorageUpload ''a11ce/1700000000000.pdf'' cv_pdf]"
proof -
  have "uploadResume calm notes_txt ''a11ce'' empty_world =
     (Inr \<lparr>success = False,
           error = Some ''Invalid file type. Please upload a PDF, DOC, or DOCX file.'',
           url = None\<rparr>, empty_world)"
    using uploadResume_validation[of notes_txt calm "''a11ce''" empty_world]
    by (simp add: notes_txt_def)
  moreover have "uploadResume calm scan_pdf ''a11ce'' empty_world =
     (Inr \<lparr>success = False,
           error = Some ''File size too large. Please upload a file smaller than 10MB.'',
           url = None\<rparr>, empty_world)"
    using uploadResume_validation[of scan_pdf calm "''a11ce''" empty_world]
    by (simp add: scan_pdf_def)
  moreover have "trace (snd (uploadResume calm cv_pdf ''a11ce'' empty_world)) =
     trace empty_world @ [StorageUpload (''a11ce'' @ ''/'' @ digits (date_now calm) @ ''.'' @
          last (split_on CHR ''.'' (file_name cv_pdf))) cv_pdf]"
    using uploadResume_validation[of cv_pdf calm "''a11ce''" empty_world]
    by (simp add: cv_pdf_def del: digits.simps)
  moreover have "digits (date_now calm) = ''1700000000000''"
    by (simp add: calm_def)
  moreover have "last (split_on CHR ''.'' (file_name cv_pdf)) = ''pdf''"
    by (simp add: cv_pdf_def)
  ultimately show ?thesis by (simp add: empty_world_def del: digits.simps)
qed

section \<open>Loading a profile\<close>

lemma pg_select_none:
  assumes "\<forall>r \<in> set tbl. user_id r \<noteq> userId"
  shows "pg_select_single e userId tbl =
     Inl (pg_error ''PGRST116'' ''JSON object requested, multiple (or no) rows returned'')"
proof -
  have "filter (\<lambda>r. own_row e (user_id r) \<and> user_id r = userId) tbl = []"
    using assms by (simp add: filter_empty_conv)
  then show ?thesis by (simp add: pg_select_single_def)
qed

lemma loadProfile_not_found:
  "db_select e userId w = (Inr (d, Some err), w') \<Longrightarrow> err_code err = Some ''PGRST116'' \<Longrightarrow>
   loadProfile e userId w = (Inr \<lparr>success = True, error = None, data = None\<rparr>, w')"
  by (simp add: loadProfile_def loadProfile_try_def)

lemma loadProfile_failed:
  "db_select e userId w = (Inr (d, Some err), w') \<Longrightarrow> err_code err \<noteq> Some ''PGRST116'' \<Longrightarrow>
   loadProfile e userId w =
     (Inr \<lparr>success = False, error = Some (''Failed to load profile: '' @ message err),
           data = None\<rparr>, w')"
  by (simp add: loadProfile_def loadProfile_try_def)

lemma loadProfile_thrown:
  "db_select e userId w = (Inl (ThrownError x), w') \<Longrightarrow>
   loadProfile e userId w =
     (Inr \<lparr>success = False, error = Some (''Failed to load profile: '' @ message x),
           data = None\<rparr>, w')"
  by (simp add: loadProfile_def loadProfile_try_def caught_def)

lemma loadProfile_no_row:
  assumes "db_fault e = None" "\<forall>r \<in> set (profiles w). user_id r \<noteq> userId"
  shows "loadProfile e userId w =
     (Inr \<lparr>success = True, error = None, data = None\<rparr>,
      w\<lparr>trace := trace w @ [DbSelect userId]\<rparr>)"
proof -
  have "db_select e userId w =
    (Inr (None, Some (pg_error ''PGRST116''
        ''JSON object requested, multiple (or no) rows returned'')),
     w\<lparr>trace := trace w @ [DbSelect userId]\<rparr>)"
    using assms by (simp add: db_select_def pg_select_none)
  then show ?thesis by (rule loadProfile_not_found) (simp add: pg_error_def)
qed

lemma db_select_world: "snd (db_select e userId w) = w\<lparr>trace := trace w @ [DbSelect userId]\<rparr>"
  by (simp add: db_select_def Let_def split: option.splits fault.splits sum.splits)

lemma loadProfile_profiles: "profiles (snd (loadProfile e userId w)) = profiles w"
proof -
  obtain r w' where s: "db_select e userId w = (r, w')" by (cases "db_select e userId w")
  then have "w' = w\<lparr>trace := trace w @ [DbSelect userId]\<rparr>"
    using db_select_world[of e userId w] by simp
  then show ?thesis
    using s
    by (simp add: loadProfile_def loadProfile_try_def split: sum.splits option.splits prod.splits)
qed

text \<open>
  Claim C5. When the relational store answers the select with the not-found error (code
  \<open>PGRST116\<close>), \<open>loadProfile\<close> returns success with \<open>data\<close> \<open>null\<close>; this is what the
  store answers when the table has no row of that owner. When it answers with any other
  error, or the request is rejected with an error, \<open>loadProfile\<close> returns a declined
  result whose message is \<open>Failed to load profile:\<close> followed by the message of the
  error.
\<close>

theorem loadProfile_not_found_is_success:
  "(db_select e userId w = (Inr (d, Some err), w') \<and> err_code err = Some ''PGRST116'' \<longrightarrow>
      loadProfile e userId w = (Inr \<lparr>success = True, error = None, data = None\<rparr>, w')) \<and>
   (db_select e userId w = (Inr (d, Some err), w') \<and> err_code err \<noteq> Some ''PGRST116'' \<longrightarrow>
      loadProfile e userId w =
        (Inr \<lparr>success = False, error = Some (''Failed to load profile: '' @ message err),
              data = None\<rparr>, w')) \<and>
   (db_select e userId w = (Inl (ThrownError x), w') \<longrightarrow>
      loadProfile e userId w =
        (Inr \<lparr>success = False, error = Some (''Failed to load profile: '' @ message x),
              data = None\<rparr>, w')) \<and>
   (db_fault e = None \<and> (\<forall>r \<in> set (profiles w). user_id r \<noteq> userId) \<longrightarrow>
      loadProfile e userId w =
        (Inr \<lparr>success = True, error = None, data = None\<rparr>,
         w\<lparr>trace := trace w @ [DbSelect userId]\<rparr>))"
  using loadProfile_not_found[of e userId w d err w'] loadProfile_failed[of e userId w d err w']
    loadProfile_thrown[of e userId w x w'] loadProfile_no_row[of e w userId]
  by blast

theorem loadProfile_not_found_is_success_witness:
  "loadProfile calm ''a11ce'' empty_world =
     (Inr \<lparr>success = True, error = None, data = None\<rparr>,
      empty_world\<lparr>trace := [DbSelect ''a11ce'']\<rparr>) \<and>
   loadProfile (calm\<lparr>db_fault := Some (Fails \<lparr>err_code = Some ''42501'',
        message = ''permission denied for table profiles''\<rparr>)\<rparr>) ''a11ce'' empty_world =
     (Inr \<lparr>success = False,
           error = Some ''Failed to load profile: permission denied for table profiles'',
           data = None\<rparr>,
      empty_world\<lparr>trace := [DbSelect ''a11ce'']\<rparr>) \<and>
   loadProfile stormy ''a11ce'' empty_world =
     (Inr \<lparr>success = False, error = Some ''Failed to load profile: Failed to fetch'',
           data = None\<rparr>,
      empty_world\<lparr>trace := [DbSelect ''a11ce'']\<rparr>)"
proof -
  let ?w = "empty_world\<lparr>trace := [DbSelect ''a11ce'']\<rparr>"
  let ?denied = "\<lparr>err_code = Some ''42501'', message = ''permission denied for table profiles''\<rparr>"
  let ?missing = "pg_error ''PGRST116'' ''JSON object requested, multiple (or no) rows returned''"
  have a: "db_select calm ''a11ce'' empty_world = (Inr (None, Some ?missing), ?w)"
    by (simp add: db_select_def pg_select_single_def calm_def empty_world_def)
  have b: "db_select (calm\<lparr>db_fault := Some (Fails ?denied)\<rparr>) ''a11ce'' empty_world =
      (Inr (None, Some ?denied), ?w)"
    by (simp add: db_select_def empty_world_def)
  have c: "db_select stormy ''a11ce'' empty_world = (Inl (ThrownError offline), ?w)"
    by (simp add: db_select_def stormy_def empty_world_def)
  have "loadProfile calm ''a11ce'' empty_world =
     (Inr \<lparr>success = True, error = None, data = None\<rparr>, ?w)"
    using loadProfile_not_found_is_success[of calm "''a11ce''" empty_world None ?missing ?w] a
    by (simp add: pg_error_def)
  moreover have "loadProfile (calm\<lparr>db_fault := Some (Fails ?denied)\<rparr>) ''a11ce'' empty_world =
     (Inr \<lparr>success = False,
           error = Some (''Failed to load profile: '' @ message ?denied), data = None\<rparr>, ?w)"
    using loadProfile_not_found_is_success[of "calm\<lparr>db_fault := Some (Fails ?denied)\<rparr>"
        "''a11ce''" empty_world None ?denied ?w] b
    by simp
  moreover have "loadProfile stormy ''a11ce'' empty_world =
     (Inr \<lparr>success = False, error = Some (''Failed to load profile: '' @ message offline),
           data = None\<rparr>, ?w)"
    using loadProfile_not_found_is_success[of stormy "''a11ce''" empty_world _ _ ?w offline] c
    by simp
  ultimately show ?thesis by (simp add: offline_def)
qed

section \<open>What the helpers do with a thrown value\<close>

lemma storage_upload_thrown:
  "rejects_with_error (storage_fault e) \<Longrightarrow> storage_upload e key f w = (Inl x, w') \<Longrightarrow>
   \<exists>err. x = ThrownError err"
  by (cases x)
     (auto simp: storage_upload_def rejects_with_error_def Let_def
        split: option.splits fault.splits if_splits)

lemma auth_getUser_thrown:
  "rejects_with_error (auth_fault e) \<Longrightarrow> auth_getUser e w = (Inl x, w') \<Longrightarrow>
   \<exists>err. x = ThrownError err"
  by (cases x)
     (auto simp: auth_getUser_def rejects_with_error_def Let_def
        split: option.splits fault.splits)

lemma db_upsert_thrown:
  "rejects_with_error (db_fault e) \<Longrightarrow> db_upsert e p w = (Inl x, w') \<Longrightarrow>
   \<exists>err. x = ThrownError err"
  by (cases x)
     (auto simp: db_upsert_def rejects_with_error_def Let_def
        split: option.splits fault.splits sum.splits prod.splits)

lemma db_select_thrown:
  "rejects_with_error (db_fault e) \<Longrightarrow> db_select e userId w = (Inl x, w') \<Longrightarrow>
   \<exists>err. x = ThrownError err"
  by (cases x)
     (auto simp: db_select_def rejects_with_error_def Let_def
        split: option.splits fault.splits sum.splits)

lemma uploadResume_returns:
  assumes "rejects_with_error (storage_fault e)"
  shows "\<exists>r w'. uploadResume e f userId w = (Inr r, w') \<and> (\<not> success r \<longrightarrow> error r \<noteq> None)"
proof -
  let ?k = "userId @ ''/'' @ digits (date_now e) @ ''.'' @ last (split_on CHR ''.'' (file_name f))"
  obtain a w1 where s: "storage_upload e ?k f w = (a, w1)"
    by (cases "storage_upload e ?k f w")
  have "\<exists>err. x = ThrownError err" if "a = Inl x" for x
    using storage_upload_thrown[OF assms, of ?k f w x w1] s that by simp
  then show ?thesis
    using s
    by (auto simp: uploadResume_def uploadResume_try_def caught_def Let_def
        simp del: digits.simps split: sum.splits option.splits)
qed

lemma saveProfile_returns:
  assumes "rejects_with_error (auth_fault e)" "rejects_with_error (db_fault e)"
  shows "\<exists>r w'. saveProfile e pd w = (Inr r, w') \<and> (\<not> success r \<longrightarrow> error r \<noteq> None)"
proof -
  obtain t w1 where t: "saveProfile_try e pd w = (t, w1)" by (cases "saveProfile_try e pd w")
  have thrown: "\<exists>err. x = ThrownError err" if "t = Inl x" for x
    using t that unfolding saveProfile_try_def
    by (auto split: prod.splits sum.splits option.splits list.splits
        dest!: auth_getUser_thrown[OF assms(1)] db_upsert_thrown[OF assms(2)])
  have returned: "\<not> success r \<longrightarrow> error r \<noteq> None" if "t = Inr r" for r
    using t that unfolding saveProfile_try_def
    by (auto split: prod.splits sum.splits option.splits list.splits)
  show ?thesis
  proof (cases t)
    case (Inl x)
    then obtain err where "x = ThrownError err" using thrown by blast
    then show ?thesis using t Inl by (simp add: saveProfile_def caught_def)
  next
    case (Inr r)
    then show ?thesis using t returned by (simp add: saveProfile_def)
  qed
qed

lemma loadProfile_returns:
  assumes "rejects_with_error (db_fault e)"
  shows "\<exists>r w'. loadProfile e userId w = (Inr r, w') \<and> (\<not> success r \<longrightarrow> error r \<noteq> None)"
proof -
  obtain a w1 where a: "db_select e userId w = (a, w1)" by (cases "db_select e userId w")
  have "\<exists>err. x = ThrownError err" if "a = Inl x" for x
    using db_select_thrown[OF assms, of userId w x w1] a that by simp
  then show ?thesis
    using a unfolding loadProfile_def loadProfile_try_def
    by (auto simp: caught_def split: prod.splits sum.splits option.splits)
qed

text \<open>What a helper throws, if it throws, is the \<open>TypeError\<close> of its handler.\<close>

lemma loadProfile_throws_error: "loadProfile e userId w = (Inl x, w') \<Longrightarrow> \<exists>err. x = ThrownError err"
  unfolding loadProfile_def
  by (auto simp: caught_def split: prod.splits sum.splits thrown.splits)

lemma loadProfile_declined_has_message:
  "loadProfile e userId w = (Inr r, w') \<Longrightarrow> \<not> success r \<Longrightarrow> error r \<noteq> None"
  unfolding loadProfile_def loadProfile_try_def
  by (auto simp: caught_def split: prod.splits sum.splits option.splits thrown.splits if_splits)

lemma getCurrentUserWithProfile_returns:
  assumes "rejects_with_error (auth_fault e)"
  shows "\<exists>r w'. getCurrentUserWithProfile e w = (Inr r, w') \<and>
    (\<not> success r \<longrightarrow> error r \<noteq> None)"
proof -
  obtain t w1 where t: "getCurrentUserWithProfile_try e w = (t, w1)"
    by (cases "getCurrentUserWithProfile_try e w")
  have thrown: "\<exists>err. x = ThrownError err" if "t = Inl x" for x
    using t that unfolding getCurrentUserWithProfile_try_def
    by (auto split: prod.splits sum.splits option.splits if_splits
        dest!: auth_getUser_thrown[OF assms] loadProfile_throws_error)
  have returned: "\<not> success r \<longrightarrow> error r \<noteq> None" if "t = Inr r" for r
    using t that unfolding getCurrentUserWithProfile_try_def
    by (auto split: prod.splits sum.splits option.splits if_splits
        dest: loadProfile_declined_has_message)
  show ?thesis
  proof (cases t)
    case (Inl x)
    then obtain err where "x = ThrownError err" using thrown by blast
    then show ?thesis using t Inl by (simp add: getCurrentUserWithProfile_def caught_def)
  next
    case (Inr r)
    then show ?thesis using t returned by (simp add: getCurrentUserWithProfile_def)
  qed
qed

text \<open>
  As long as no service rejects a request with \<open>undefined\<close> or \<open>null\<close>, every helper
  returns a result object, whatever else fails, and the object carries an error message
  whenever \<open>success\<close> is false.
\<close>

lemma helpers_return:
  assumes "rejects_with_error (auth_fault e)" "rejects_with_error (storage_fault e)"
    "rejects_with_error (db_fault e)"
  shows
  "(\<exists>r w'. uploadResume e f userId w = (Inr r, w') \<and> (\<not> success r \<longrightarrow> error r \<noteq> None)) \<and>
   (\<exists>r w'. saveProfile e pd w = (Inr r, w') \<and> (\<not> success r \<longrightarrow> error r \<noteq> None)) \<and>
   (\<exists>r w'. loadProfile e userId w = (Inr r, w') \<and> (\<not> success r \<longrightarrow> error r \<noteq> None)) \<and>
   (\<exists>r w'. getCurrentUserWithProfile e w = (Inr r, w') \<and>
      (\<not> success r \<longrightarrow> error r \<noteq> None))"
  using uploadResume_returns[OF assms(2)] saveProfile_returns[OF assms(1,3)]
    loadProfile_returns[OF assms(3)] getCurrentUserWithProfile_returns[OF assms(1)]
  by blast

lemma helpers_return_in_a_storm:
  "(\<exists>r w'. uploadResume stormy cv_pdf ''a11ce'' empty_world = (Inr r, w') \<and>
      \<not> success r \<and> error r = Some ''Upload failed: Failed to fetch'') \<and>
   (\<exists>r w'. saveProfile stormy [(''bio'', JStr ''hi'')] empty_world = (Inr r, w') \<and>
      \<not> success r \<and> error r = Some ''Failed to save profile: Failed to fetch'') \<and>
   (\<exists>r w'. loadProfile stormy ''a11ce'' empty_world = (Inr r, w') \<and>
      \<not> success r \<and> error r = Some ''Failed to load profile: Failed to fetch'') \<and>
   (\<exists>r w'. getCurrentUserWithProfile stormy empty_world = (Inr r, w') \<and>
      \<not> success r \<and> error r = Some ''Failed to get user data: Failed to fetch'')"
proof -
  have "rejects_with_error (auth_fault stormy)" "rejects_with_error (storage_fault stormy)"
    "rejects_with_error (db_fault stormy)"
    by (simp_all add: rejects_with_error_def stormy_def)
  note t = helpers_return[OF this, of cv_pdf "''a11ce''" empty_world "[(''bio'', JStr ''hi'')]"]
  obtain r1 w1 where 1: "uploadResume stormy cv_pdf ''a11ce'' empty_world = (Inr r1, w1)"
    using t by blast
  obtain r2 w2 where 2: "saveProfile stormy [(''bio'', JStr ''hi'')] empty_world = (Inr r2, w2)"
    using t by blast
  obtain r3 w3 where 3: "loadProfile stormy ''a11ce'' empty_world = (Inr r3, w3)"
    using t by blast
  obtain r4 w4 where 4: "getCurrentUserWithProfile stormy empty_world = (Inr r4, w4)"
    using t by blast
  have "\<not> success r1 \<and> error r1 = Some ''Upload failed: Failed to fetch''"
    using 1 by (auto simp: run_defs example_defs)
  moreover have "\<not> success r2 \<and> error r2 = Some ''Failed to save profile: Failed to fetch''"
    using 2 by (auto simp: run_defs example_defs)
  moreover have "\<not> success r3 \<and> error r3 = Some ''Failed to load profile: Failed to fetch''"
    using 3 by (auto simp: run_defs example_defs)
  moreover have "\<not> success r4 \<and> error r4 = Some ''Failed to get user data: Failed to fetch''"
    using 4 by (auto simp: run_defs example_defs)
  ultimately show ?thesis using 1 2 3 4 by simp
qed

text \<open>
  Claim C9 says that no helper ever throws across its boundary, whatever is thrown inside
  the call. The code does not do that for a request that is rejected with \<open>undefined\<close>
  (or \<open>null\<close>): the \<open>catch\<close> block reads \<open>error.message\<close>, that read throws a
  \<open>TypeError\<close> inside the handler, and the promise of the helper rejects with it instead
  of fulfilling with a result object. With every request rejected with \<open>undefined\<close>, the
  three helpers \<open>uploadResume\<close>, \<open>saveProfile\<close> and \<open>loadProfile\<close> reject, and so does
  \<open>getCurrentUserWithProfile\<close> when its own request for the user is rejected so; for a
  file that fails the validation no request is made and \<open>uploadResume\<close> still returns.
\<close>

theorem helpers_throw_on_rejection_with_undefined:
  "uploadResume mute cv_pdf ''a11ce'' empty_world =
     (Inl (ThrownError (type_error ''Cannot read properties of undefined (reading message)'')),
      empty_world\<lparr>trace := [StorageUpload ''a11ce/1700000000000.pdf'' cv_pdf]\<rparr>) \<and>
   saveProfile mute [(''bio'', JStr ''hi'')] empty_world =
     (Inl (ThrownError (type_error ''Cannot read properties of undefined (reading message)'')),
      empty_world\<lparr>trace := [AuthGetUser]\<rparr>) \<and>
   loadProfile mute ''a11ce'' empty_world =
     (Inl (ThrownError (type_error ''Cannot read properties of undefined (reading message)'')),
      empty_world\<lparr>trace := [DbSelect ''a11ce'']\<rparr>) \<and>
   getCurrentUserWithProfile mute empty_world =
     (Inl (ThrownError (type_error ''Cannot read properties of undefined (reading message)'')),
      empty_world\<lparr>trace := [AuthGetUser]\<rparr>) \<and>
   (\<exists>r. uploadResume mute notes_txt ''a11ce'' empty_world = (Inr r, empty_world))"
  by (simp add: run_defs example_defs)

section \<open>Saving a profile\<close>

subsection \<open>The payload\<close>

lemma map_of_set_prop: "map_of (set_prop k v al) = (map_of al)(k \<mapsto> v)"
  by (induction al) auto

lemma map_of_spread:
  "map_of (spread t src) x =
     (case map_of (rev src) x of None \<Rightarrow> map_of t x | Some v \<Rightarrow> Some v)"
  by (induction t src rule: spread.induct)
     (auto simp: map_of_set_prop map_add_def split: option.splits)

lemma keys_set_prop: "set (map fst (set_prop k v al)) = insert k (set (map fst al))"
  by (induction al) auto

lemma distinct_set_prop: "distinct (map fst al) \<Longrightarrow> distinct (map fst (set_prop k v al))"
  by (induction al) (auto simp: keys_set_prop simp flip: set_map)

lemma distinct_spread: "distinct (map fst t) \<Longrightarrow> distinct (map fst (spread t src))"
  by (induction t src rule: spread.induct) (simp_all add: distinct_set_prop)

lemma distinct_profileToSave: "distinct (map fst (profileToSave e u pd))"
  by (simp add: profileToSave_def distinct_set_prop distinct_spread)

lemma map_of_json:
  assumes "distinct (map fst p)" "map_of p k = Some v" "v \<noteq> JUndefined"
  shows "map_of (json p) k = Some v"
proof -
  have "(k, v) \<in> set (json p)" using assms(2,3) by (auto simp: json_def dest: map_of_SomeD)
  moreover have "distinct (map fst (json p))"
    using assms(1) unfolding json_def by (rule distinct_map_filter)
  ultimately show ?thesis by (rule map_of_is_SomeI[rotated])
qed

text \<open>
  The owner key of the payload is the signed-in user's id only when the caller's object
  has no \<open>user_id\<close> of its own: the spread comes after \<open>user_id: user.id\<close>.
\<close>

lemma profileToSave_user_id:
  "map_of (profileToSave e u pd) ''user_id'' =
     (case map_of (rev pd) ''user_id'' of None \<Rightarrow> Some (JStr (uid u)) | Some v \<Rightarrow> Some v)"
  by (simp add: profileToSave_def map_of_set_prop map_of_spread split: option.splits)

lemma profileToSave_updated_at:
  "map_of (profileToSave e u pd) ''updated_at'' = Some (JStr (iso_now e))"
  by (simp add: profileToSave_def map_of_set_prop)

lemma json_updated_at:
  "map_of (json (profileToSave e u pd)) ''updated_at'' = Some (JStr (iso_now e))"
  using distinct_profileToSave profileToSave_updated_at by (rule map_of_json) simp

subsection \<open>The upsert on the table\<close>

lemma find_user_id:
  "find (\<lambda>r. user_id r = u) tbl = Some old \<Longrightarrow> user_id old = u \<and> old \<in> set tbl"
  by (auto simp: find_Some_iff)

lemma find_none_user_id:
  "find (\<lambda>r. user_id r = u) tbl = None \<Longrightarrow> u \<notin> set (map user_id tbl)"
  by (auto simp: find_None_iff)

lemma pg_upsert_cases:
  assumes "pg_upsert e p tbl = Inr (r, tbl')"
  obtains (insert) u where "map_of (json p) ''user_id'' = Some (JStr u)" "own_row e u"
      "find (\<lambda>r. user_id r = u) tbl = None" "r = assign (json p) (default_row e u)"
      "tbl' = tbl @ [r]"
  | (update) u old where "map_of (json p) ''user_id'' = Some (JStr u)" "own_row e u"
      "find (\<lambda>r. user_id r = u) tbl = Some old"
      "r = (assign (json p) old)\<lparr>updated_at := Some (server_now e)\<rparr>"
      "tbl' = map (\<lambda>x. if user_id x = u then r else x) tbl"
  using assms unfolding pg_upsert_def Let_def
  by (auto split: if_splits option.splits jsval.splits)

lemma user_id_assign:
  "map_of j ''user_id'' = Some (JStr u) \<Longrightarrow> user_id (assign j r) = u"
  by (simp add: assign_def uuid_col_def)

lemma pg_upsert_owner:
  assumes "pg_upsert e p tbl = Inr (r, tbl')" "session e = Some s"
  shows "user_id r = uid s"
  using assms(1)
proof (cases rule: pg_upsert_cases)
  case (insert u)
  then show ?thesis using assms(2) by (simp add: user_id_assign own_row_def)
next
  case (update u old)
  then show ?thesis using assms(2) by (simp add: user_id_assign own_row_def)
qed

lemma pg_upsert_user_ids:
  assumes "pg_upsert e p tbl = Inr (r, tbl')"
  shows "map user_id tbl' = map user_id tbl \<or>
         (user_id r \<notin> set (map user_id tbl) \<and> tbl' = tbl @ [r])"
  using assms
proof (cases rule: pg_upsert_cases)
  case (insert u)
  then show ?thesis using find_none_user_id[of u tbl] by (simp add: user_id_assign)
next
  case (update u old)
  have "user_id r = u" using update by (simp add: user_id_assign)
  then have "map user_id tbl' = map user_id tbl" using update(5) by (auto simp: map_idI)
  then show ?thesis by simp
qed

lemma pg_upsert_distinct:
  assumes "pg_upsert e p tbl = Inr (r, tbl')" "distinct (map user_id tbl)"
  shows "distinct (map user_id tbl')"
  using pg_upsert_user_ids[OF assms(1)] assms(2) by auto

lemma pg_upsert_member:
  assumes "pg_upsert e p tbl = Inr (r, tbl')"
  shows "r \<in> set tbl'"
  using assms
proof (cases rule: pg_upsert_cases)
  case (insert u)
  then show ?thesis by simp
next
  case (update u old)
  have "old \<in> set tbl" "user_id old = u" using find_user_id[OF update(3)] by auto
  then show ?thesis using update(5) by force
qed

lemma filter_unique:
  "distinct (map f xs) \<Longrightarrow> x \<in> set xs \<Longrightarrow> filter (\<lambda>y. f y = f x) xs = [x]"
proof (induction xs)
  case Nil
  then show ?case by simp
next
  case (Cons a xs)
  show ?case
  proof (cases "a = x")
    case True
    have "filter (\<lambda>y. f y = f x) xs = []"
      using Cons.prems True by (auto simp: filter_empty_conv image_iff)
    then show ?thesis using True by simp
  next
    case False
    then have "x \<in> set xs" using Cons.prems by simp
    moreover have "f a \<noteq> f x" using Cons.prems calculation by auto
    ultimately show ?thesis using Cons by simp
  qed
qed

lemma pg_upsert_one_row:
  assumes "pg_upsert e p tbl = Inr (r, tbl')" "distinct (map user_id tbl)"
  shows "filter (\<lambda>x. user_id x = user_id r) tbl' = [r]"
  using filter_unique[OF pg_upsert_distinct[OF assms] pg_upsert_member[OF assms(1)]] .

lemma pg_upsert_existing:
  assumes "pg_upsert e p tbl = Inr (r, tbl')" "a \<in> set tbl" "user_id a = user_id r"
    "distinct (map user_id tbl)"
  shows "r = (assign (json p) a)\<lparr>updated_at := Some (server_now e)\<rparr> \<and>
    length tbl' = length tbl"
  using assms(1)
proof (cases rule: pg_upsert_cases)
  case (insert u)
  then have "user_id r = u" by (simp add: user_id_assign)
  then show ?thesis
    using find_none_user_id[OF insert(3)] assms(2,3) by (auto simp: image_iff)
next
  case (update u old)
  have o: "old \<in> set tbl" "user_id old = u" using find_user_id[OF update(3)] by auto
  have "user_id r = u" using update by (simp add: user_id_assign)
  then have "user_id a = user_id old" using assms(3) o by simp
  then have "a = old" using assms(2,4) o(1) by (meson distinct_map inj_onD)
  then show ?thesis using update by simp
qed

lemma pg_upsert_updated_at:
  assumes "pg_upsert e (profileToSave e u pd) tbl = Inr (r, tbl')"
  shows "updated_at r =
     (if user_id r \<in> set (map user_id tbl) then Some (server_now e) else Some (iso_now e))"
  using assms
proof (cases rule: pg_upsert_cases)
  case (insert v)
  have "user_id r = v" using insert by (simp add: user_id_assign)
  then have "user_id r \<notin> set (map user_id tbl)" using find_none_user_id[OF insert(3)] by simp
  moreover have "updated_at r = Some (iso_now e)"
    using insert(4) by (simp add: assign_def text_col_def json_updated_at)
  ultimately show ?thesis by simp
next
  case (update v old)
  have "user_id r = v" using update by (simp add: user_id_assign)
  moreover have "old \<in> set tbl" "user_id old = v" using find_user_id[OF update(3)] by auto
  ultimately have "user_id r \<in> set (map user_id tbl)" by (metis image_eqI set_map)
  then show ?thesis using update(4) by simp
qed

subsection \<open>\<open>saveProfile\<close> on the world\<close>

lemma auth_getUser_world: "snd (auth_getUser e w) = w\<lparr>trace := trace w @ [AuthGetUser]\<rparr>"
  by (simp add: auth_getUser_def Let_def split: option.splits fault.splits)

lemma auth_getUser_user: "fst (auth_getUser e w) = Inr (Some u, None) \<Longrightarrow> session e = Some u"
  by (simp add: auth_getUser_def Let_def split: option.splits fault.splits)

lemma db_upsert_world:
  "resumes (snd (db_upsert e p w)) = resumes w \<and>
   trace (snd (db_upsert e p w)) = trace w @ [DbUpsert p]"
  by (simp add: db_upsert_def Let_def split: option.splits fault.splits sum.splits prod.splits)

lemma db_upsert_stored:
  "db_upsert e p w = (Inr (Some rows, None), w') \<Longrightarrow>
     \<exists>r. rows = [r] \<and> pg_upsert e p (profiles w) = Inr (r, profiles w')"
  by (auto simp: db_upsert_def Let_def split: option.splits fault.splits sum.splits prod.splits)

lemma db_upsert_profiles:
  "profiles (snd (db_upsert e p w)) = profiles w \<or>
   (\<exists>r. pg_upsert e p (profiles w) = Inr (r, profiles (snd (db_upsert e p w))))"
  by (auto simp: db_upsert_def Let_def split: option.splits fault.splits sum.splits prod.splits)

lemma saveProfile_world_cases:
  "snd (saveProfile e pd w) = w\<lparr>trace := trace w @ [AuthGetUser]\<rparr> \<or>
   (\<exists>u. session e = Some u \<and>
      snd (saveProfile e pd w) =
        snd (db_upsert e (profileToSave e u pd) (w\<lparr>trace := trace w @ [AuthGetUser]\<rparr>)))"
proof -
  obtain a w1 where a: "auth_getUser e w = (a, w1)" by (cases "auth_getUser e w")
  have w1: "w1 = w\<lparr>trace := trace w @ [AuthGetUser]\<rparr>"
    using auth_getUser_world[of e w] a by simp
  show ?thesis
  proof (cases "\<exists>u. a = Inr (Some u, None)")
    case True
    then obtain u where u: "a = Inr (Some u, None)" by blast
    then have s: "session e = Some u" using auth_getUser_user[of e w u] a by simp
    have "snd (saveProfile e pd w) = snd (db_upsert e (profileToSave e u pd) w1)"
      using a u unfolding saveProfile_def saveProfile_try_def
      by (simp split: prod.splits sum.splits option.splits)
    then show ?thesis using s w1 by blast
  next
    case False
    then have "snd (saveProfile e pd w) = w1"
      using a unfolding saveProfile_def saveProfile_try_def
      by (auto split: prod.splits sum.splits option.splits)
    then show ?thesis using w1 by simp
  qed
qed

lemma saveProfile_success:
  assumes "saveProfile e pd w = (Inr res, w')" "success res"
  obtains u r where "session e = Some u" "data res = Some r"
    "pg_upsert e (profileToSave e u pd) (profiles w) = Inr (r, profiles w')"
    "trace w' = trace w @ [AuthGetUser, DbUpsert (profileToSave e u pd)]"
proof -
  obtain a w1 where a: "auth_getUser e w = (a, w1)" by (cases "auth_getUser e w")
  have w1: "w1 = w\<lparr>trace := trace w @ [AuthGetUser]\<rparr>"
    using auth_getUser_world[of e w] a by simp
  have "\<exists>u. a = Inr (Some u, None)"
    using assms a unfolding saveProfile_def saveProfile_try_def
    by (auto split: prod.splits sum.splits option.splits)
  then obtain u where u: "a = Inr (Some u, None)" by blast
  then have s: "session e = Some u" using auth_getUser_user[of e w u] a by simp
  obtain d w2 where d: "db_upsert e (profileToSave e u pd) w1 = (d, w2)"
    by (cases "db_upsert e (profileToSave e u pd) w1")
  have "\<exists>rows. d = Inr (Some rows, None) \<and> w2 = w' \<and>
      data res = (case rows of [] \<Rightarrow> None | r # rs \<Rightarrow> Some r)"
    using assms a u d unfolding saveProfile_def saveProfile_try_def
    by (auto split: prod.splits sum.splits option.splits)
  then obtain rows where rows: "d = Inr (Some rows, None)" "w2 = w'"
      "data res = (case rows of [] \<Rightarrow> None | r # rs \<Rightarrow> Some r)" by blast
  obtain r where r: "rows = [r]"
      "pg_upsert e (profileToSave e u pd) (profiles w1) = Inr (r, profiles w')"
    using db_upsert_stored[of e _ w1 rows w'] d rows by auto
  have t: "trace w' = trace w @ [AuthGetUser, DbUpsert (profileToSave e u pd)]"
    using db_upsert_world[of e "profileToSave e u pd" w1] d rows(2) w1 by simp
  show ?thesis using that[OF s _ _ t] r rows(3) w1 by simp
qed


lemma saveProfile_profiles:
  "profiles (snd (saveProfile e pd w)) = profiles w \<or>
   (\<exists>u r. pg_upsert e (profileToSave e u pd) (profiles w) =
       Inr (r, profiles (snd (saveProfile e pd w))))"
  using saveProfile_world_cases[of e pd w]
proof (elim disjE exE conjE)
  assume "snd (saveProfile e pd w) = w\<lparr>trace := trace w @ [AuthGetUser]\<rparr>"
  then show ?thesis by simp
next
  fix u
  assume "snd (saveProfile e pd w) =
        snd (db_upsert e (profileToSave e u pd) (w\<lparr>trace := trace w @ [AuthGetUser]\<rparr>))"
  then show ?thesis
    using db_upsert_profiles[of e "profileToSave e u pd" "w\<lparr>trace := trace w @ [AuthGetUser]\<rparr>"]
    by auto
qed

lemma saveProfile_invariant:
  "distinct (map user_id (profiles w)) \<Longrightarrow>
   distinct (map user_id (profiles (snd (saveProfile e pd w))))"
  using saveProfile_profiles[of e pd w] pg_upsert_distinct by metis

subsection \<open>One row for every identity\<close>

text \<open>
  Claim C1. The table never holds two rows of one identity: if the \<open>user_id\<close>s of the
  rows are distinct before a call of \<open>saveProfile\<close> they are distinct after it, whatever
  the call is given and however it ends, and the other helpers that reach the backend
  (\<open>uploadResume\<close>, \<open>loadProfile\<close>) leave the table as it is. When \<open>saveProfile\<close> succeeds twice in
  succession for the same identity, the table holds exactly one row of that identity after
  the first call and after the second; the row of the second call is the row of the first
  with the second payload's columns assigned and \<open>updated_at\<close> set by the trigger, and
  the second call adds no row.
\<close>

theorem save_twice_one_row:
  assumes "distinct (map user_id (profiles w))"
  shows "(\<forall>e pd. distinct (map user_id (profiles (snd (saveProfile e pd w))))) \<and>
    (\<forall>e f userId. profiles (snd (uploadResume e f userId w)) = profiles w) \<and>
    (\<forall>e userId. profiles (snd (loadProfile e userId w)) = profiles w) \<and>
    (session e1 = Some u \<and> session e2 = Some u \<and>
     saveProfile e1 pd1 w = (Inr r1, w1) \<and> success r1 \<and>
     saveProfile e2 pd2 w1 = (Inr r2, w2) \<and> success r2 \<longrightarrow>
       (\<exists>a b. data r1 = Some a \<and> data r2 = Some b \<and>
          filter (\<lambda>r. user_id r = uid u) (profiles w1) = [a] \<and>
          filter (\<lambda>r. user_id r = uid u) (profiles w2) = [b] \<and>
          b = (assign (json (profileToSave e2 u pd2)) a)\<lparr>updated_at := Some (server_now e2)\<rparr> \<and>
          length (profiles w2) = length (profiles w1)))"
proof (intro conjI allI impI)
  fix e pd
  show "distinct (map user_id (profiles (snd (saveProfile e pd w))))"
    using assms by (rule saveProfile_invariant)
next
  fix e f userId
  show "profiles (snd (uploadResume e f userId w)) = profiles w"
    by (rule uploadResume_profiles)
next
  fix e userId
  show "profiles (snd (loadProfile e userId w)) = profiles w"
    by (rule loadProfile_profiles)
next
  assume h: "session e1 = Some u \<and> session e2 = Some u \<and>
     saveProfile e1 pd1 w = (Inr r1, w1) \<and> success r1 \<and>
     saveProfile e2 pd2 w1 = (Inr r2, w2) \<and> success r2"
  obtain a where a: "data r1 = Some a"
      "pg_upsert e1 (profileToSave e1 u pd1) (profiles w) = Inr (a, profiles w1)"
    using h by (auto elim: saveProfile_success)
  obtain b where b: "data r2 = Some b"
      "pg_upsert e2 (profileToSave e2 u pd2) (profiles w1) = Inr (b, profiles w2)"
    using h by (auto elim: saveProfile_success)
  have ua: "user_id a = uid u" using pg_upsert_owner[OF a(2)] h by simp
  have ub: "user_id b = uid u" using pg_upsert_owner[OF b(2)] h by simp
  have d1: "distinct (map user_id (profiles w1))" using pg_upsert_distinct[OF a(2) assms] .
  have f1: "filter (\<lambda>r. user_id r = uid u) (profiles w1) = [a]"
    using pg_upsert_one_row[OF a(2) assms] ua by simp
  have f2: "filter (\<lambda>r. user_id r = uid u) (profiles w2) = [b]"
    using pg_upsert_one_row[OF b(2) d1] ub by simp
  have "a \<in> set (profiles w1)" using a(2) by (rule pg_upsert_member)
  then have "b = (assign (json (profileToSave e2 u pd2)) a)\<lparr>updated_at := Some (server_now e2)\<rparr>
       \<and> length (profiles w2) = length (profiles w1)"
    using pg_upsert_existing[OF b(2) _ _ d1, of a] ua ub by simp
  then show "\<exists>a b. data r1 = Some a \<and> data r2 = Some b \<and>
          filter (\<lambda>r. user_id r = uid u) (profiles w1) = [a] \<and>
          filter (\<lambda>r. user_id r = uid u) (profiles w2) = [b] \<and>
          b = (assign (json (profileToSave e2 u pd2)) a)\<lparr>updated_at := Some (server_now e2)\<rparr> \<and>
          length (profiles w2) = length (profiles w1)"
    using a(1) b(1) f1 f2 by blast
qed

theorem save_twice_one_row_witness:
  "distinct (map user_id (profiles empty_world)) \<and>
   (\<exists>r1 w1 r2 w2 a b.
      saveProfile calm [(''bio'', JStr ''first'')] empty_world = (Inr r1, w1) \<and> success r1 \<and>
      saveProfile calm [(''bio'', JStr ''second'')] w1 = (Inr r2, w2) \<and> success r2 \<and>
      data r1 = Some a \<and> data r2 = Some b \<and>
      filter (\<lambda>r. user_id r = ''a11ce'') (profiles w1) = [a] \<and>
      filter (\<lambda>r. user_id r = ''a11ce'') (profiles w2) = [b] \<and>
      row_id a = ''row-1'' \<and> row_id b = ''row-1'' \<and>
      bio a = Some ''first'' \<and> bio b = Some ''second'' \<and>
      length (profiles w2) = 1)"
proof -
  let ?a = "\<lparr>row_id = ''row-1'', user_id = ''a11ce'', resume_url = None, skills = None,
      interests = None, experience_level = None, preferred_location = None,
      bio = Some ''first'', github_url = None, linkedin_url = None, portfolio_url = None,
      updated_at = Some ''2023-11-14T22:13:20.000Z''\<rparr>"
  let ?r1 = "\<lparr>success = True, error = None, data = Some ?a\<rparr>"
  let ?w1 = "\<lparr>profiles = [?a], resumes = [],
      trace = [AuthGetUser, DbUpsert [(''user_id'', JStr ''a11ce''), (''bio'', JStr ''first''),
        (''updated_at'', JStr ''2023-11-14T22:13:20.000Z'')]]\<rparr>"
  have d: "distinct (map user_id (profiles empty_world))" by (simp add: empty_world_def)
  have 1: "saveProfile calm [(''bio'', JStr ''first'')] empty_world = (Inr ?r1, ?w1)"
    by (simp add: run_defs example_defs)
  have "\<exists>r2 w2. saveProfile calm [(''bio'', JStr ''second'')] ?w1 = (Inr r2, w2) \<and> success r2"
    by (simp add: run_defs example_defs)
  then obtain r2 w2 where 2: "saveProfile calm [(''bio'', JStr ''second'')] ?w1 = (Inr r2, w2)"
    and s2: "success r2" by blast
  have "\<exists>a b. data ?r1 = Some a \<and> data r2 = Some b \<and>
          filter (\<lambda>r. user_id r = uid alice) (profiles ?w1) = [a] \<and>
          filter (\<lambda>r. user_id r = uid alice) (profiles w2) = [b] \<and>
          b = (assign (json (profileToSave calm alice [(''bio'', JStr ''second'')])) a)
                \<lparr>updated_at := Some (server_now calm)\<rparr> \<and>
          length (profiles w2) = length (profiles ?w1)"
    using save_twice_one_row[OF d, of calm alice calm "[(''bio'', JStr ''first'')]" ?r1 ?w1
        "[(''bio'', JStr ''second'')]" r2 w2] 1 2 s2
    by (simp add: calm_def)
  then obtain b where b: "data r2 = Some b"
      "filter (\<lambda>r. user_id r = uid alice) (profiles w2) = [b]"
      "b = (assign (json (profileToSave calm alice [(''bio'', JStr ''second'')])) ?a)
                \<lparr>updated_at := Some (server_now calm)\<rparr>"
      "length (profiles w2) = 1"
    by auto
  have "row_id b = ''row-1'' \<and> bio b = Some ''second''"
    unfolding b(3) by (simp add: run_defs example_defs)
  then show ?thesis using d 1 2 s2 b(1,2,4) by (simp add: alice_def)
qed

subsection \<open>The owner key of the payload\<close>

text \<open>
  Claim C2 says that the payload's \<open>user_id\<close> is the current identity's id whatever the
  caller supplies. The code does not do that for a caller's object with a \<open>user_id\<close> of
  its own. Signed in as \<open>a11ce\<close>, \<open>saveProfile({ user_id: 'mallory', bio: 'hi' })\<close>
  submits a payload whose \<open>user_id\<close> is \<open>mallory\<close>; the insert policy refuses the row
  and the helper declines.
\<close>

theorem saveProfile_user_id_overridden:
  "uid alice = ''a11ce'' \<and> session calm = Some alice \<and>
   map_of (profileToSave calm alice [(''user_id'', JStr ''mallory''), (''bio'', JStr ''hi'')])
     ''user_id'' = Some (JStr ''mallory'') \<and>
   saveProfile calm [(''user_id'', JStr ''mallory''), (''bio'', JStr ''hi'')] empty_world =
     (Inr \<lparr>success = False,
           error = Some ''Failed to save profile: new row violates row-level security policy'',
           data = None\<rparr>,
      \<lparr>profiles = [], resumes = [],
       trace = [AuthGetUser,
         DbUpsert [(''user_id'', JStr ''mallory''), (''bio'', JStr ''hi''),
                   (''updated_at'', JStr ''2023-11-14T22:13:20.000Z'')]]\<rparr>)"
  by (simp add: run_defs example_defs)

subsection \<open>Who sets \<open>updated_at\<close>\<close>

text \<open>
  Claim C4, as amended. Every payload of \<open>saveProfile\<close> carries an \<open>updated_at\<close> taken
  from the client's clock. When a successful save updates the existing row of the
  identity, the trigger replaces it and the stored \<open>updated_at\<close> is the server's
  \<open>NOW()\<close>; when it inserts the first row of the identity, the stored \<open>updated_at\<close> is
  the value the client supplied.
\<close>

theorem updated_at_client_on_insert_server_on_update:
  "session e = Some u \<and> saveProfile e pd w = (Inr res, w') \<and> success res \<longrightarrow>
     DbUpsert (profileToSave e u pd) \<in> set (trace w') \<and>
     map_of (profileToSave e u pd) ''updated_at'' = Some (JStr (iso_now e)) \<and>
     (\<exists>r. data res = Some r \<and> r \<in> set (profiles w') \<and> user_id r = uid u \<and>
        updated_at r =
          (if uid u \<in> set (map user_id (profiles w)) then Some (server_now e)
           else Some (iso_now e)))"
proof
  assume h: "session e = Some u \<and> saveProfile e pd w = (Inr res, w') \<and> success res"
  obtain r where r: "data res = Some r"
      "pg_upsert e (profileToSave e u pd) (profiles w) = Inr (r, profiles w')"
      "trace w' = trace w @ [AuthGetUser, DbUpsert (profileToSave e u pd)]"
    using h by (auto elim: saveProfile_success)
  have o: "user_id r = uid u" using pg_upsert_owner[OF r(2)] h by simp
  have "updated_at r =
      (if uid u \<in> set (map user_id (profiles w)) then Some (server_now e) else Some (iso_now e))"
    using pg_upsert_updated_at[OF r(2)] o by simp
  moreover have "r \<in> set (profiles w')" using r(2) by (rule pg_upsert_member)
  ultimately show "DbUpsert (profileToSave e u pd) \<in> set (trace w') \<and>
     map_of (profileToSave e u pd) ''updated_at'' = Some (JStr (iso_now e)) \<and>
     (\<exists>r. data res = Some r \<and> r \<in> set (profiles w') \<and> user_id r = uid u \<and>
        updated_at r =
          (if uid u \<in> set (map user_id (profiles w)) then Some (server_now e)
           else Some (iso_now e)))"
    using r(1,3) o profileToSave_updated_at[of e u pd] by simp
qed

text \<open>
  The claim as it was stated fails on the first save of an identity: the stored
  \<open>updated_at\<close> is the client's timestamp, not the server's.
\<close>

theorem updated_at_client_supplied_on_insert:
  "map updated_at (profiles (snd (saveProfile calm [] empty_world))) =
     [Some ''2023-11-14T22:13:20.000Z''] \<and>
   iso_now calm = ''2023-11-14T22:13:20.000Z'' \<and>
   server_now calm = ''2023-11-14 22:13:21.5+00''"
  by (simp add: run_defs example_defs)

theorem updated_at_client_on_insert_server_on_update_witness:
  "(\<exists>res w' r. saveProfile calm [] empty_world = (Inr res, w') \<and> success res \<and>
      data res = Some r \<and> updated_at r = Some (iso_now calm) \<and>
      (\<exists>res2 w2 r2. saveProfile calm [] w' = (Inr res2, w2) \<and> success res2 \<and>
         data res2 = Some r2 \<and> updated_at r2 = Some (server_now calm)))"
proof -
  let ?a = "\<lparr>row_id = ''row-1'', user_id = ''a11ce'', resume_url = None, skills = None,
      interests = None, experience_level = None, preferred_location = None,
      bio = None, github_url = None, linkedin_url = None, portfolio_url = None,
      updated_at = Some ''2023-11-14T22:13:20.000Z''\<rparr>"
  let ?res = "\<lparr>success = True, error = None, data = Some ?a\<rparr>"
  let ?w1 = "\<lparr>profiles = [?a], resumes = [],
      trace = [AuthGetUser, DbUpsert [(''user_id'', JStr ''a11ce''),
        (''updated_at'', JStr ''2023-11-14T22:13:20.000Z'')]]\<rparr>"
  have s: "session calm = Some alice" by (simp add: calm_def)
  have 1: "saveProfile calm [] empty_world = (Inr ?res, ?w1)"
    by (simp add: run_defs example_defs)
  have "\<exists>r. data ?res = Some r \<and> r \<in> set (profiles ?w1) \<and> user_id r = uid alice \<and>
        updated_at r =
          (if uid alice \<in> set (map user_id (profiles empty_world)) then Some (server_now calm)
           else Some (iso_now calm))"
    using updated_at_client_on_insert_server_on_update[of calm alice "[]" empty_world ?res ?w1]
      s 1 by simp
  then have first: "updated_at ?a = Some (iso_now calm)"
    by (simp add: empty_world_def)
  have "\<exists>res2 w2. saveProfile calm [] ?w1 = (Inr res2, w2) \<and> success res2"
    by (simp add: run_defs example_defs)
  then obtain res2 w2 where 2: "saveProfile calm [] ?w1 = (Inr res2, w2)" "success res2"
    by blast
  have "\<exists>r. data res2 = Some r \<and> r \<in> set (profiles w2) \<and> user_id r = uid alice \<and>
        updated_at r =
          (if uid alice \<in> set (map user_id (profiles ?w1)) then Some (server_now calm)
           else Some (iso_now calm))"
    using updated_at_client_on_insert_server_on_update[of calm alice "[]" ?w1 res2 w2] s 2
    by simp
  then obtain r2 where "data res2 = Some r2" "updated_at r2 = Some (server_now calm)"
    by (auto simp: alice_def)
  then show ?thesis using 1 2 first by simp
qed

section \<open>Submitting the form\<close>






subsection \<open>The first submission of a new identity\<close>

lemma loadUserData_new:
  assumes "session e = Some u" "auth_fault e = None" "db_fault e = None"
    "\<forall>r \<in> set (profiles w). user_id r \<noteq> uid u"
  shows "loadUserData e initial w =
    (initial\<lparr>loading := False, user_st := Some u\<rparr>,
     w\<lparr>trace := trace w @ [AuthGetUser, DbSelect (uid u)]\<rparr>)"
  using assms pg_select_none[of "profiles w" "uid u" e]
  by (simp add: loadUserData_def getCurrentUserWithProfile_def getCurrentUserWithProfile_try_def
      auth_getUser_def loadProfile_def loadProfile_try_def db_select_def pg_error_def initial_def)

lemma to_array_go_rust: "to_array ''Go, Rust'' = [''Go'', ''Rust'']"
  by (simp add: to_array_def trim_def is_ws_def)

lemma to_array_empty: "to_array [] = []"
  by (simp add: to_array_def trim_def)

lemma handleSubmit_new:
  assumes "session e = Some u" "auth_fault e = None" "db_fault e = None"
    "\<forall>r \<in> set (profiles w). user_id r \<noteq> uid u \<and> row_id r \<noteq> new_uuid e"
    "formData s = [(''skills'', ''Go, Rust''), (''interests'', []), (''experience_level'', ''mid''),
        (''preferred_location'', []), (''bio'', []), (''github_url'', []),
        (''linkedin_url'', []), (''portfolio_url'', [])]"
    "user_st s = Some u" "resumeFile s = None" "existingResumeUrl s = []"
  shows "handleSubmit e s w =
    (let p = \<lparr>row_id = new_uuid e, user_id = uid u, resume_url = Some [],
       skills = Some [''Go'', ''Rust''], interests = Some [],
       experience_level = Some ''mid'', preferred_location = Some [], bio = Some [],
       github_url = Some [], linkedin_url = Some [], portfolio_url = Some [],
       updated_at = Some (iso_now e)\<rparr> in
     (s\<lparr>saving := False, error_st := Some [], success_st := ''Profile saved successfully!'',
        profile_st := Some p\<rparr>,
      w\<lparr>trace := trace w @ [AuthGetUser, DbUpsert
          [(''user_id'', JStr (uid u)), (''resume_url'', JStr []),
           (''skills'', JArr [''Go'', ''Rust'']), (''interests'', JArr []),
           (''experience_level'', JStr ''mid''), (''preferred_location'', JStr []),
           (''bio'', JStr []), (''github_url'', JStr []), (''linkedin_url'', JStr []),
           (''portfolio_url'', JStr []), (''updated_at'', JStr (iso_now e))]],
        profiles := profiles w @ [p]\<rparr>))"
proof -
  have f: "find (\<lambda>r. user_id r = uid u) (profiles w) = None"
    using assms(4) by (simp add: find_None_iff)
  have n: "new_uuid e \<notin> row_id ` set (profiles w)" using assms(4) by auto
  show ?thesis
    using assms(1,2,3,5,6,7,8) f n
    by (simp add: handleSubmit_def save_step_def to_array_go_rust to_array_empty
        str_or_undefined_def saveProfile_def saveProfile_try_def auth_getUser_def
        db_upsert_def pg_upsert_def profileToSave_def json_def column_ok_def own_row_def
        assign_def default_row_def uuid_col_def text_col_def array_col_def Let_def)
qed

text \<open>
  Claim C8, as amended. A signed-in identity with no row in the table opens the form
  (empty baseline), types \<open>Go, Rust\<close> as skills, chooses the experience level \<open>mid\<close>,
  stages no file and submits, and no service fails. Then one row is added for the
  identity, the form shows it as the saved profile, and the row has
  \<open>skills = ["Go", "Rust"]\<close>, \<open>experience_level = "mid"\<close> and \<open>resume_url\<close> equal to the
  empty string (the empty baseline of the form), not \<open>NULL\<close>.
\<close>

theorem new_identity_first_submit:
  "session e = Some u \<and> auth_fault e = None \<and> db_fault e = None \<and>
   (\<forall>r \<in> set (profiles w). user_id r \<noteq> uid u \<and> row_id r \<noteq> new_uuid e) \<and>
   loadUserData e initial w = (s1, w1) \<and>
   s2 = handleInputChange ''experience_level'' ''mid'' (handleInputChange ''skills'' ''Go, Rust'' s1) \<and>
   handleSubmit e s2 w1 = (s3, w2) \<longrightarrow>
     (\<exists>p. profiles w2 = profiles w @ [p] \<and> profile_st s3 = Some p \<and> user_id p = uid u \<and>
        skills p = Some [''Go'', ''Rust''] \<and> experience_level p = Some ''mid'' \<and>
        resume_url p = Some [] \<and>
        success_st s3 = ''Profile saved successfully!'' \<and> error_st s3 = Some [] \<and>
        \<not> saving s3)"
proof
  assume h: "session e = Some u \<and> auth_fault e = None \<and> db_fault e = None \<and>
   (\<forall>r \<in> set (profiles w). user_id r \<noteq> uid u \<and> row_id r \<noteq> new_uuid e) \<and>
   loadUserData e initial w = (s1, w1) \<and>
   s2 = handleInputChange ''experience_level'' ''mid'' (handleInputChange ''skills'' ''Go, Rust'' s1) \<and>
   handleSubmit e s2 w1 = (s3, w2)"
  have l: "s1 = initial\<lparr>loading := False, user_st := Some u\<rparr>"
      "w1 = w\<lparr>trace := trace w @ [AuthGetUser, DbSelect (uid u)]\<rparr>"
    using loadUserData_new[of e u w] h by auto
  have s2: "formData s2 = [(''skills'', ''Go, Rust''), (''interests'', []),
        (''experience_level'', ''mid''), (''preferred_location'', []), (''bio'', []),
        (''github_url'', []), (''linkedin_url'', []), (''portfolio_url'', [])]"
      "user_st s2 = Some u" "resumeFile s2 = None" "existingResumeUrl s2 = []"
    using h l(1) by (simp_all add: handleInputChange_def initial_def)
  have "\<forall>r \<in> set (profiles w1). user_id r \<noteq> uid u \<and> row_id r \<noteq> new_uuid e"
    using h l(2) by simp
  then show "\<exists>p. profiles w2 = profiles w @ [p] \<and> profile_st s3 = Some p \<and> user_id p = uid u \<and>
        skills p = Some [''Go'', ''Rust''] \<and> experience_level p = Some ''mid'' \<and>
        resume_url p = Some [] \<and>
        success_st s3 = ''Profile saved successfully!'' \<and> error_st s3 = Some [] \<and>
        \<not> saving s3"
    using handleSubmit_new[of e u w1 s2, OF _ _ _ _ s2] h l(2) by (auto simp: Let_def)
qed

text \<open>
  The claim as it was stated has \<open>resume_url\<close> unset; the row that is stored has the
  empty string in that column.
\<close>

theorem new_identity_resume_url_is_empty_string:
  "map resume_url (profiles (snd (handleSubmit calm
      (handleInputChange ''experience_level'' ''mid''
        (handleInputChange ''skills'' ''Go, Rust'' (fst (loadUserData calm initial empty_world))))
      (snd (loadUserData calm initial empty_world))))) = [Some []] \<and>
   Some [] \<noteq> (None :: string option)"
  by (simp add: run_defs example_defs)

theorem new_identity_first_submit_witness:
  "\<exists>s1 w1 s3 w2 p.
     loadUserData calm initial empty_world = (s1, w1) \<and>
     handleSubmit calm
       (handleInputChange ''experience_level'' ''mid'' (handleInputChange ''skills'' ''Go, Rust'' s1))
       w1 = (s3, w2) \<and>
     profiles w2 = [p] \<and> profile_st s3 = Some p \<and> user_id p = ''a11ce'' \<and>
     skills p = Some [''Go'', ''Rust''] \<and> experience_level p = Some ''mid'' \<and>
     resume_url p = Some []"
proof -
  obtain s1 w1 where 1: "loadUserData calm initial empty_world = (s1, w1)"
    by (cases "loadUserData calm initial empty_world")
  define s2 where
    "s2 = handleInputChange ''experience_level'' ''mid'' (handleInputChange ''skills'' ''Go, Rust'' s1)"
  obtain s3 w2 where 2: "handleSubmit calm s2 w1 = (s3, w2)"
    by (cases "handleSubmit calm s2 w1")
  have "\<exists>p. profiles w2 = profiles empty_world @ [p] \<and> profile_st s3 = Some p \<and>
        user_id p = uid alice \<and>
        skills p = Some [''Go'', ''Rust''] \<and> experience_level p = Some ''mid'' \<and>
        resume_url p = Some [] \<and>
        success_st s3 = ''Profile saved successfully!'' \<and> error_st s3 = Some [] \<and>
        \<not> saving s3"
    using new_identity_first_submit[of calm alice empty_world s1 w1 s2 s3 w2] 1 2 s2_def
    by (simp add: calm_def empty_world_def)
  then show ?thesis using 1 2 unfolding s2_def by (auto simp: empty_world_def alice_def)
qed

end
